theory Spec2Isabelle
  imports Complex_Main
begin

section \<open>Request bodies: JSON values as the handlers see them\<close>

text \<open>
  \<open>req.body\<close> is whatever \<open>express.json()\<close> parsed; the handlers read it untyped.
  An object is the list of its own properties (keys distinct after parsing). Numbers are
  rationals; their rendering by \<open>Number.prototype.toString\<close> is a function of the
  runtime and is passed in.
\<close>

datatype json =
    JUndefined
  | JNull
  | JBool bool
  | JNum rat
  | JStr string
  | JArr "json list"
  | JObj "(string \<times> json) list"

text \<open>JavaScript truthiness, as used by \<open>!items\<close>, \<open>!status\<close>.\<close>

fun truthy :: "json \<Rightarrow> bool" where
  "truthy JUndefined = False"
| "truthy JNull = False"
| "truthy (JBool b) = b"
| "truthy (JNum n) = (n \<noteq> 0)"
| "truthy (JStr s) = (s \<noteq> [])"
| "truthy (JArr xs) = True"
| "truthy (JObj kvs) = True"

text \<open>
  Property read \<open>v.k\<close> for the keys the handlers use (\<open>items\<close>, \<open>totalPrice\<close>,
  \<open>productId\<close>, \<open>quantity\<close>, \<open>price\<close>, none of which lives on a prototype):
  reading from \<open>undefined\<close> or \<open>null\<close> throws a TypeError (\<open>None\<close>), a missing
  key reads as \<open>undefined\<close>.
\<close>

fun get_prop :: "json \<Rightarrow> string \<Rightarrow> json option" where
  "get_prop JUndefined k = None"
| "get_prop JNull k = None"
| "get_prop (JObj kvs) k = Some (case map_of kvs k of None \<Rightarrow> JUndefined | Some v \<Rightarrow> v)"
| "get_prop v k = Some JUndefined"

fun isArray :: "json \<Rightarrow> bool" where
  "isArray (JArr xs) = True"
| "isArray v = False"

text \<open>
  The method call \<open>v.toString()\<close>. It throws (\<open>None\<close>) on \<open>undefined\<close> and
  \<open>null\<close>, and on an object whose own property \<open>toString\<close> shadows the inherited
  method with a value that is not callable. An array joins its elements with commas,
  \<open>undefined\<close> and \<open>null\<close> elements giving the empty string.
\<close>

fun js_toString :: "(rat \<Rightarrow> string) \<Rightarrow> json \<Rightarrow> string option"
  and js_join :: "(rat \<Rightarrow> string) \<Rightarrow> json list \<Rightarrow> string option" where
  "js_toString sh JUndefined = None"
| "js_toString sh JNull = None"
| "js_toString sh (JBool b) = Some (if b then ''true'' else ''false'')"
| "js_toString sh (JNum n) = Some (sh n)"
| "js_toString sh (JStr s) = Some s"
| "js_toString sh (JArr xs) = js_join sh xs"
| "js_toString sh (JObj kvs) =
     (if ''toString'' \<in> set (map fst kvs) then None else Some ''[object Object]'')"
| "js_join sh [] = Some []"
| "js_join sh (x # xs) =
     (case (if x = JUndefined \<or> x = JNull then Some [] else js_toString sh x) of
        None \<Rightarrow> None
      | Some s \<Rightarrow>
          (if xs = [] then Some s
           else (case js_join sh xs of None \<Rightarrow> None | Some r \<Rightarrow> Some (s @ '','' @ r))))"

section \<open>Schema validation (shared/schema.ts)\<close>

text \<open>
  A validation issue is its path and its message; the handlers answer with the message
  of the first issue (\<open>error.errors[0].message\<close>). The messages are the validator's
  defaults, except the one the register schema sets itself.
\<close>

type_synonym zod_issue = "string \<times> string"

fun js_typeName :: "json \<Rightarrow> string" where
  "js_typeName JUndefined = ''undefined''"
| "js_typeName JNull = ''null''"
| "js_typeName (JBool b) = ''boolean''"
| "js_typeName (JNum n) = ''number''"
| "js_typeName (JStr s) = ''string''"
| "js_typeName (JArr xs) = ''array''"
| "js_typeName (JObj kvs) = ''object''"

text \<open>
  \<open>z.string()\<close> on one field: a value of the wrong type aborts the field (no value),
  a failed check such as \<open>min(6)\<close> leaves the value and only records the issue.
\<close>

fun z_string :: "string \<Rightarrow> json \<Rightarrow> zod_issue list \<times> string option" where
  "z_string path (JStr s) = ([], Some s)"
| "z_string path JUndefined = ([(path, ''Required'')], None)"
| "z_string path v = ([(path, ''Expected string, received '' @ js_typeName v)], None)"

definition z_string_min6 :: "string \<Rightarrow> json \<Rightarrow> zod_issue list \<times> string option" where
  "z_string_min6 path v =
     (case z_string path v of
        (is, Some s) \<Rightarrow>
          (if length s < 6
           then (is @ [(path, ''String must contain at least 6 character(s)'')], Some s)
           else (is, Some s))
      | (is, None) \<Rightarrow> (is, None))"

definition z_string_email :: "(string \<Rightarrow> bool) \<Rightarrow> string \<Rightarrow> json \<Rightarrow> zod_issue list \<times> string option" where
  "z_string_email valid path v =
     (case z_string path v of
        (is, Some s) \<Rightarrow> (if valid s then (is, Some s) else (is @ [(path, ''Invalid email'')], Some s))
      | (is, None) \<Rightarrow> (is, None))"

text \<open>An optional string: absent is fine and stays absent.\<close>

fun z_string_optional :: "string \<Rightarrow> json \<Rightarrow> zod_issue list \<times> string option option" where
  "z_string_optional path JUndefined = ([], Some None)"
| "z_string_optional path v =
     (case z_string path v of (is, Some s) \<Rightarrow> (is, Some (Some s)) | (is, None) \<Rightarrow> (is, None))"

text \<open>The root of \<open>z.object\<close>: the properties of an object, or the issue for anything else.\<close>

fun z_object :: "json \<Rightarrow> zod_issue list + (string \<Rightarrow> json)" where
  "z_object (JObj kvs) = Inr (\<lambda>k. case map_of kvs k of None \<Rightarrow> JUndefined | Some v \<Rightarrow> v)"
| "z_object JUndefined = Inl [([], ''Required'')]"
| "z_object v = Inl [([], ''Expected object, received '' @ js_typeName v)]"

record login_data =
  l_email :: string
  l_password :: string

text \<open>\<open>loginSchema = z.object({ email: z.string().email(), password: z.string().min(6) })\<close>\<close>

definition loginSchema_parse :: "(string \<Rightarrow> bool) \<Rightarrow> json \<Rightarrow> zod_issue list + login_data" where
  "loginSchema_parse valid b =
     (case z_object b of
        Inl is \<Rightarrow> Inl is
      | Inr f \<Rightarrow>
          (case (z_string_email valid ''email'' (f ''email''),
                 z_string_min6 ''password'' (f ''password'')) of
             ((ie, ve), (ip, vp)) \<Rightarrow>
               (case (ie @ ip, ve, vp) of
                  ([], Some e, Some p) \<Rightarrow> Inr \<lparr>l_email = e, l_password = p\<rparr>
                | (is, _, _) \<Rightarrow> Inl is)))"

record register_data =
  r_username :: string
  r_email :: string
  r_password :: string
  r_role :: "string option"
  r_confirmPassword :: string

text \<open>
  \<open>registerSchema = insertUserSchema.extend({ confirmPassword: z.string().min(6) })
     .refine((data) => data.password === data.confirmPassword,
             { message: "Passwords don't match", path: ["confirmPassword"] })\<close>
  The insert schema of the users table has \<open>username\<close>, \<open>email\<close>, \<open>password\<close> as
  strings and \<open>role\<close> (a column with a default) as an optional string. The
  refinement runs unless a field was aborted; its issue comes after the fields' issues.
\<close>

definition registerSchema_parse :: "json \<Rightarrow> zod_issue list + register_data" where
  "registerSchema_parse b =
     (case z_object b of
        Inl is \<Rightarrow> Inl is
      | Inr f \<Rightarrow>
          (case (z_string ''username'' (f ''username''),
                 z_string ''email'' (f ''email''),
                 z_string ''password'' (f ''password''),
                 z_string_optional ''role'' (f ''role''),
                 z_string_min6 ''confirmPassword'' (f ''confirmPassword'')) of
             ((iu, vu), (ie, ve), (ip, vp), (ir, vr), (ic, vc)) \<Rightarrow>
               (case (vu, ve, vp, vr, vc) of
                  (Some u, Some e, Some p, Some r, Some c) \<Rightarrow>
                    (case (iu @ ie @ ip @ ir @ ic) @
                          (if p = c then [] else [(''confirmPassword'', ''Passwords don't match'')]) of
                       [] \<Rightarrow> Inr \<lparr>r_username = u, r_email = e, r_password = p, r_role = r,
                                  r_confirmPassword = c\<rparr>
                     | is \<Rightarrow> Inl is)
                | _ \<Rightarrow> Inl (iu @ ie @ ip @ ir @ ic))))"


section \<open>The stores (server/storage.ts)\<close>

text \<open>
  Each table is the list of its rows in insertion order, without the \<open>created_at\<close>
  column. The primary key default \<open>gen_random_uuid()\<close> is a function of the number
  of rows inserted so far. A product's price is its numeric value, since the listing
  compares it. An order and an order item hold what the engine stored and
  \<open>.returning()\<close> gives back: the decimal columns as the text of the stored
  \<open>numeric(10,2)\<close> value, the product reference as text, the quantity as an integer.
\<close>

record user =
  u_id :: string
  u_username :: string
  u_email :: string
  u_password :: string
  u_role :: string

record insert_user =
  iu_username :: string
  iu_email :: string
  iu_password :: string
  iu_role :: "string option"

record product =
  p_id :: string
  p_name :: string
  p_description :: "string option"
  p_price :: rat
  p_image :: string
  p_categoryId :: "string option"
  p_stock :: int
  p_rating :: "string option"
  p_reviewCount :: "int option"
  p_isActive :: "bool option"

record insert_product =
  ip_name :: string
  ip_description :: "string option"
  ip_price :: rat
  ip_image :: string
  ip_categoryId :: "string option"
  ip_stock :: "int option"
  ip_rating :: "string option"
  ip_reviewCount :: "int option"
  ip_isActive :: "bool option"

record order =
  o_id :: string
  o_userId :: string
  o_totalPrice :: string
  o_status :: string
  o_customerEmail :: "string option"

record insert_order =
  io_userId :: string
  io_totalPrice :: string
  io_status :: "string option"
  io_customerEmail :: "string option"

record order_item =
  oi_id :: string
  oi_orderId :: string
  oi_productId :: string
  oi_quantity :: int
  oi_price :: string

record insert_order_item =
  ioi_orderId :: string
  ioi_productId :: json
  ioi_quantity :: json
  ioi_price :: string

record store =
  users :: "user list"
  products :: "product list"
  orders :: "order list"
  orderItems :: "order_item list"
  inserted :: nat

text \<open>
  A number as \<open>parseFloat\<close> gives it: a finite value, \<open>NaN\<close> for a text that is
  no number, or an infinity.
\<close>

datatype js_number = Num rat | NaN | Infinity | NegInfinity

text \<open>
  What the server takes from its libraries, its runtime and the database engine: token
  verification and signing (\<open>jwt.verify\<close> gives the user id of a token, or throws),
  the password hash and its comparison, the validator's e-mail check, number rendering
  and parsing, the key default of the tables, the insert schema the ORM derives from the
  products table, and the engine's reading of a value into a column: a text into
  \<open>numeric(10,2)\<close> (the text of the stored value, rounded to two decimals), a value
  into a \<open>NOT NULL\<close> integer column and into a \<open>NOT NULL\<close> varchar column.
  A reading of \<open>None\<close> is the engine's error (a text that is no number, a value out of
  range, \<open>NULL\<close> for a missing value).
\<close>

record env =
  jwt_verify :: "string \<Rightarrow> string option"
  jwt_sign :: "string \<Rightarrow> string"
  bcrypt_hash :: "string \<Rightarrow> string"
  bcrypt_compare :: "string \<Rightarrow> string \<Rightarrow> bool"
  validEmail :: "string \<Rightarrow> bool"
  showNum :: "rat \<Rightarrow> string"
  parseFloat :: "string \<Rightarrow> js_number"
  gen_random_uuid :: "nat \<Rightarrow> string"
  pg_numeric :: "string \<Rightarrow> string option"
  pg_integer :: "json \<Rightarrow> int option"
  pg_varchar :: "json \<Rightarrow> string option"
  insertProductSchema_parse :: "json \<Rightarrow> zod_issue list + insert_product"

definition getUser :: "store \<Rightarrow> string \<Rightarrow> user option" where
  "getUser st i = find (\<lambda>u. u_id u = i) (users st)"

definition getUserByEmail :: "store \<Rightarrow> string \<Rightarrow> user option" where
  "getUserByEmail st e = find (\<lambda>u. u_email u = e) (users st)"

definition getUserByUsername :: "store \<Rightarrow> string \<Rightarrow> user option" where
  "getUserByUsername st n = find (\<lambda>u. u_username u = n) (users st)"

text \<open>
  The inserts into users and products are given for a row the engine accepts; the
  handlers look the e-mail and the username up before they insert a user.
\<close>

text \<open>\<open>a || "user"\<close> on an optional string: absent and empty both give the default.\<close>

fun or_user :: "string option \<Rightarrow> string" where
  "or_user None = ''user''"
| "or_user (Some r) = (if r = [] then ''user'' else r)"

definition createUser :: "env \<Rightarrow> store \<Rightarrow> insert_user \<Rightarrow> user \<times> store" where
  "createUser env st iu =
     (let row = \<lparr>u_id = gen_random_uuid env (inserted st),
                 u_username = iu_username iu,
                 u_email = iu_email iu,
                 u_password = bcrypt_hash env (iu_password iu),
                 u_role = or_user (iu_role iu)\<rparr>
      in (row, st\<lparr>users := users st @ [row], inserted := Suc (inserted st)\<rparr>))"

definition createProduct :: "env \<Rightarrow> store \<Rightarrow> insert_product \<Rightarrow> product \<times> store" where
  "createProduct env st ip =
     (let row = \<lparr>p_id = gen_random_uuid env (inserted st),
                 p_name = ip_name ip,
                 p_description = ip_description ip,
                 p_price = ip_price ip,
                 p_image = ip_image ip,
                 p_categoryId = ip_categoryId ip,
                 p_stock = (case ip_stock ip of None \<Rightarrow> 0 | Some n \<Rightarrow> n),
                 p_rating = Some ''0.0'',
                 p_reviewCount = Some 0,
                 p_isActive = Some True\<rparr>
      in (row, st\<lparr>products := products st @ [row], inserted := Suc (inserted st)\<rparr>))"

text \<open>
  The two inserts of order placement, with the engine's checks on the columns the
  handler fills from the request: \<open>orders.total_price\<close> and \<open>order_items.price\<close> are
  \<open>numeric(10,2) NOT NULL\<close>, \<open>orders.user_id\<close>, \<open>order_items.order_id\<close> and
  \<open>order_items.product_id\<close> are \<open>NOT NULL\<close> references to stored rows,
  \<open>order_items.quantity\<close> is a \<open>NOT NULL\<close> integer. A rejected insert throws
  (\<open>None\<close>) and writes nothing.
\<close>

definition createOrder :: "env \<Rightarrow> store \<Rightarrow> insert_order \<Rightarrow> (order \<times> store) option" where
  "createOrder env st io =
     (case pg_numeric env (io_totalPrice io) of
        None \<Rightarrow> None
      | Some stored \<Rightarrow>
          (if io_userId io \<in> set (map u_id (users st)) then
             (let row = \<lparr>o_id = gen_random_uuid env (inserted st),
                         o_userId = io_userId io,
                         o_totalPrice = stored,
                         o_status = (case io_status io of None \<Rightarrow> ''pending'' | Some s \<Rightarrow> s),
                         o_customerEmail = io_customerEmail io\<rparr>
              in Some (row, st\<lparr>orders := orders st @ [row], inserted := Suc (inserted st)\<rparr>))
           else None))"

definition createOrderItem ::
  "env \<Rightarrow> store \<Rightarrow> insert_order_item \<Rightarrow> (order_item \<times> store) option" where
  "createOrderItem env st ioi =
     (case (pg_varchar env (ioi_productId ioi), pg_integer env (ioi_quantity ioi),
            pg_numeric env (ioi_price ioi)) of
        (Some productId, Some quantity, Some price) \<Rightarrow>
          (if ioi_orderId ioi \<in> set (map o_id (orders st))
              \<and> productId \<in> set (map p_id (products st)) then
             (let row = \<lparr>oi_id = gen_random_uuid env (inserted st),
                         oi_orderId = ioi_orderId ioi,
                         oi_productId = productId,
                         oi_quantity = quantity,
                         oi_price = price\<rparr>
              in Some (row, st\<lparr>orderItems := orderItems st @ [row],
                               inserted := Suc (inserted st)\<rparr>))
           else None)
      | _ \<Rightarrow> None)"

subsection \<open>Product listing\<close>

text \<open>
  The engine's \<open>LIKE\<close>: in the pattern \<open>%\<close> matches any run of characters, \<open>_\<close>
  any one character, and a backslash makes the next character literal. (A pattern
  ending in a lone backslash is an error of the engine; the listing never builds one,
  since its pattern ends in \<open>%\<close>.) \<open>ILIKE\<close> is \<open>LIKE\<close> without regard to case.
\<close>

fun like_match :: "string \<Rightarrow> string \<Rightarrow> bool" where
  "like_match [] t = (t = [])"
| "like_match (c # p) t =
     (if c = CHR ''%'' then
        like_match p t \<or> (case t of [] \<Rightarrow> False | x # t' \<Rightarrow> like_match (c # p) t')
      else if c = CHR ''_'' then
        (case t of [] \<Rightarrow> False | x # t' \<Rightarrow> like_match p t')
      else if c = CHR 0x5C then
        (case p of
           [] \<Rightarrow> False
         | e # p' \<Rightarrow> (case t of [] \<Rightarrow> False | x # t' \<Rightarrow> x = e \<and> like_match p' t'))
      else
        (case t of [] \<Rightarrow> False | x # t' \<Rightarrow> x = c \<and> like_match p t'))"

definition lower_char :: "char \<Rightarrow> char" where
  "lower_char c =
     (case map_of (zip ''ABCDEFGHIJKLMNOPQRSTUVWXYZ'' ''abcdefghijklmnopqrstuvwxyz'') c of
        None \<Rightarrow> c
      | Some l \<Rightarrow> l)"

definition ilike :: "string \<Rightarrow> string \<Rightarrow> bool" where
  "ilike t pat = like_match (map lower_char pat) (map lower_char t)"

text \<open>
  The engine's \<open>price >= bound\<close> and \<open>price <= bound\<close> on the bound the listing
  hands over as text: \<open>NaN\<close> sorts above every number.
\<close>

fun pg_gte :: "rat \<Rightarrow> js_number \<Rightarrow> bool" where
  "pg_gte price (Num m) = (m \<le> price)"
| "pg_gte price NaN = False"
| "pg_gte price Infinity = False"
| "pg_gte price NegInfinity = True"

fun pg_lte :: "rat \<Rightarrow> js_number \<Rightarrow> bool" where
  "pg_lte price (Num m) = (price \<le> m)"
| "pg_lte price NaN = True"
| "pg_lte price Infinity = True"
| "pg_lte price NegInfinity = False"

record product_filters =
  f_categoryId :: "string option"
  f_search :: "string option"
  f_minPrice :: "js_number option"
  f_maxPrice :: "js_number option"

text \<open>
  \<open>getProducts\<close> collects its conditions in a list, starting from the one on
  \<open>isActive\<close>, and selects the rows that satisfy all of them. A condition on a
  \<open>NULL\<close> column is not satisfied.
\<close>

definition getProducts :: "store \<Rightarrow> product_filters \<Rightarrow> product list" where
  "getProducts st filters =
     (let conditions =
        [\<lambda>p. p_isActive p = Some True]
        @ (case f_categoryId filters of
             Some c \<Rightarrow> if c \<noteq> [] then [\<lambda>p. p_categoryId p = Some c] else []
           | None \<Rightarrow> [])
        @ (case f_search filters of
             Some s \<Rightarrow>
               if s \<noteq> []
               then [\<lambda>p. ilike (p_name p) (''%'' @ s @ ''%'')
                       \<or> (case p_description p of
                             None \<Rightarrow> False
                           | Some d \<Rightarrow> ilike d (''%'' @ s @ ''%''))]
               else []
           | None \<Rightarrow> [])
        @ (case f_minPrice filters of Some m \<Rightarrow> [\<lambda>p. pg_gte (p_price p) m] | None \<Rightarrow> [])
        @ (case f_maxPrice filters of Some m \<Rightarrow> [\<lambda>p. pg_lte (p_price p) m] | None \<Rightarrow> [])
      in filter (\<lambda>p. list_all (\<lambda>c. c p) conditions) (products st))"


subsection \<open>The listing as the specification words it\<close>

text \<open>
  For comparison with \<open>getProducts\<close>: a product is listed when it is active and
  passes every filter that is provided, where the search filter asks that the search text
  occur in the name or in the description, letter case aside.
\<close>

fun starts_with :: "string \<Rightarrow> string \<Rightarrow> bool" where
  "starts_with t [] = True"
| "starts_with [] (c # s) = False"
| "starts_with (x # t) (c # s) = (x = c \<and> starts_with t s)"

fun contains_text :: "string \<Rightarrow> string \<Rightarrow> bool" where
  "contains_text [] s = (s = [])"
| "contains_text (x # t) s = (starts_with (x # t) s \<or> contains_text t s)"

definition contains_ci :: "string \<Rightarrow> string \<Rightarrow> bool" where
  "contains_ci t s = contains_text (map lower_char t) (map lower_char s)"

fun provided_text :: "string option \<Rightarrow> string option" where
  "provided_text None = None"
| "provided_text (Some q) = (if q = [] then None else Some q)"

text \<open>A price is at least, or at most, a bound as numbers compare; none is either for \<open>NaN\<close>.\<close>

fun at_least :: "rat \<Rightarrow> js_number \<Rightarrow> bool" where
  "at_least price (Num m) = (m \<le> price)"
| "at_least price NaN = False"
| "at_least price Infinity = False"
| "at_least price NegInfinity = True"

fun at_most :: "rat \<Rightarrow> js_number \<Rightarrow> bool" where
  "at_most price (Num m) = (price \<le> m)"
| "at_most price NaN = False"
| "at_most price Infinity = True"
| "at_most price NegInfinity = False"

definition spec_listing :: "store \<Rightarrow> product_filters \<Rightarrow> product list" where
  "spec_listing st filters =
     filter (\<lambda>p.
        p_isActive p = Some True
        \<and> (case provided_text (f_categoryId filters) of
              None \<Rightarrow> True
            | Some c \<Rightarrow> p_categoryId p = Some c)
        \<and> (case provided_text (f_search filters) of
              None \<Rightarrow> True
            | Some s \<Rightarrow>
                contains_ci (p_name p) s
                \<or> (case p_description p of None \<Rightarrow> False | Some d \<Rightarrow> contains_ci d s))
        \<and> (case f_minPrice filters of None \<Rightarrow> True | Some m \<Rightarrow> at_least (p_price p) m)
        \<and> (case f_maxPrice filters of None \<Rightarrow> True | Some m \<Rightarrow> at_most (p_price p) m))
       (products st)"

text \<open>A search text in which no character means anything to \<open>LIKE\<close>.\<close>

definition like_plain :: "string \<Rightarrow> bool" where
  "like_plain s = list_all (\<lambda>c. c \<noteq> CHR ''%'' \<and> c \<noteq> CHR ''_'' \<and> c \<noteq> CHR 0x5C) s"

section \<open>The API surface (server/routes.ts)\<close>

record user_view =
  v_id :: string
  v_username :: string
  v_email :: string
  v_role :: string

datatype resp_body =
    Message string
  | Session user_view string
  | OrderBody order
  | ProductBody product
  | ProductList "product list"

record response =
  status :: nat
  body :: resp_body

record request =
  req_authorization :: "string option"
  req_body :: json
  req_query :: "string \<Rightarrow> string option"
  req_user :: "user option"

text \<open>\<open>res.status(n).json({ message: m })\<close>, and \<open>res.json(b)\<close> with its status 200.\<close>

definition json_message :: "nat \<Rightarrow> string \<Rightarrow> response" where
  "json_message n m = \<lparr>status = n, body = Message m\<rparr>"

definition json_ok :: "resp_body \<Rightarrow> response" where
  "json_ok b = \<lparr>status = 200, body = b\<rparr>"

text \<open>The answer of every handler's \<open>catch\<close> to anything but a validation error.\<close>

definition internal_error :: response where
  "internal_error = json_message 500 ''Internal server error''"

text \<open>
  The answer to a validation error: the first issue's message. (A validation error
  always carries an issue; reading \<open>errors[0].message\<close> of none would throw.)
\<close>

fun zod_error :: "zod_issue list \<Rightarrow> response" where
  "zod_error [] = internal_error"
| "zod_error (i # is) = json_message 400 (snd i)"

definition view_of :: "user \<Rightarrow> user_view" where
  "view_of u = \<lparr>v_id = u_id u, v_username = u_username u, v_email = u_email u, v_role = u_role u\<rparr>"

subsection \<open>The auth gate and the role gate\<close>

text \<open>\<open>s.split(' ')\<close>: the pieces between single spaces, empty pieces included.\<close>

fun split_space :: "string \<Rightarrow> string list" where
  "split_space [] = [[]]"
| "split_space (c # cs) =
     (if c = CHR '' '' then [] # split_space cs
      else (case split_space cs of [] \<Rightarrow> [[c]] | w # ws \<Rightarrow> (c # w) # ws))"

text \<open>
  \<open>const token = authHeader && authHeader.split(' ')[1]\<close>, read for \<open>!token\<close>:
  a missing or empty header, a header without a second piece, and an empty second piece
  all count as no token.
\<close>

definition bearer_token :: "string option \<Rightarrow> string option" where
  "bearer_token authHeader =
     (case authHeader of
        None \<Rightarrow> None
      | Some h \<Rightarrow>
          (if h = [] then None
           else (case split_space h of
                   a # t # rest \<Rightarrow> (if t = [] then None else Some t)
                 | _ \<Rightarrow> None)))"

text \<open>A middleware either answers the request itself or calls \<open>next()\<close>.\<close>

datatype outcome = Respond response | Next request

definition authenticateToken :: "env \<Rightarrow> store \<Rightarrow> request \<Rightarrow> outcome" where
  "authenticateToken env st req =
     (case bearer_token (req_authorization req) of
        None \<Rightarrow> Respond (json_message 401 ''Access token required'')
      | Some token \<Rightarrow>
          (case jwt_verify env token of
             None \<Rightarrow> Respond (json_message 403 ''Invalid token'')
           | Some userId \<Rightarrow>
               (case getUser st userId of
                  None \<Rightarrow> Respond (json_message 401 ''Invalid token'')
                | Some u \<Rightarrow> Next (req\<lparr>req_user := Some u\<rparr>))))"

definition requireAdmin :: "request \<Rightarrow> outcome" where
  "requireAdmin req =
     (case req_user req of
        None \<Rightarrow> Respond (json_message 403 ''Admin access required'')
      | Some u \<Rightarrow>
          (if u_role u \<noteq> ''admin'' then Respond (json_message 403 ''Admin access required'')
           else Next req))"

text \<open>
  A route is its middlewares in order, then its handler:
  \<open>app.post(path, authenticateToken, handler)\<close> and
  \<open>app.post(path, authenticateToken, requireAdmin, handler)\<close>.
\<close>

type_synonym handler = "request \<Rightarrow> store \<Rightarrow> response \<times> store"

definition protected :: "env \<Rightarrow> handler \<Rightarrow> handler" where
  "protected env h req st =
     (case authenticateToken env st req of
        Respond r \<Rightarrow> (r, st)
      | Next req' \<Rightarrow> h req' st)"

definition admin_only :: "env \<Rightarrow> handler \<Rightarrow> handler" where
  "admin_only env h req st =
     (case authenticateToken env st req of
        Respond r \<Rightarrow> (r, st)
      | Next req' \<Rightarrow>
          (case requireAdmin req' of
             Respond r \<Rightarrow> (r, st)
           | Next req'' \<Rightarrow> h req'' st))"

subsection \<open>Registration and login\<close>

definition register :: "env \<Rightarrow> handler" where
  "register env req st =
     (case registerSchema_parse (req_body req) of
        Inl is \<Rightarrow> (zod_error is, st)
      | Inr data \<Rightarrow>
          (case getUserByEmail st (r_email data) of
             Some existingUser \<Rightarrow> (json_message 400 ''User already exists'', st)
           | None \<Rightarrow>
               (case getUserByUsername st (r_username data) of
                  Some existingUsername \<Rightarrow> (json_message 400 ''Username already taken'', st)
                | None \<Rightarrow>
                    (case createUser env st
                            \<lparr>iu_username = r_username data,
                             iu_email = r_email data,
                             iu_password = r_password data,
                             iu_role = Some (or_user (r_role data))\<rparr> of
                       (u, st') \<Rightarrow> (json_ok (Session (view_of u) (jwt_sign env (u_id u))), st')))))"

text \<open>The login handler reads \<open>req.body.email\<close> for its log line before it validates.\<close>

definition login :: "env \<Rightarrow> handler" where
  "login env req st =
     (case get_prop (req_body req) ''email'' of
        None \<Rightarrow> (internal_error, st)
      | Some logged \<Rightarrow>
          (case loginSchema_parse (validEmail env) (req_body req) of
             Inl is \<Rightarrow> (zod_error is, st)
           | Inr data \<Rightarrow>
               (case getUserByEmail st (l_email data) of
                  None \<Rightarrow> (json_message 400 ''Invalid credentials'', st)
                | Some u \<Rightarrow>
                    (if \<not> bcrypt_compare env (l_password data) (u_password u)
                     then (json_message 400 ''Invalid credentials'', st)
                     else (json_ok (Session (view_of u) (jwt_sign env (u_id u))), st)))))"

subsection \<open>Products\<close>

text \<open>
  \<open>if (q) filters.k = q\<close> on a query parameter: an empty string is not a filter.
  A query parameter is a single text or absent.
\<close>

fun provided :: "string option \<Rightarrow> string option" where
  "provided None = None"
| "provided (Some q) = (if q = [] then None else Some q)"

definition get_products :: "env \<Rightarrow> handler" where
  "get_products env req st =
     (let filters =
        \<lparr>f_categoryId = provided (req_query req ''categoryId''),
         f_search = provided (req_query req ''search''),
         f_minPrice = map_option (parseFloat env) (provided (req_query req ''minPrice'')),
         f_maxPrice = map_option (parseFloat env) (provided (req_query req ''maxPrice''))\<rparr>
      in (json_ok (ProductList (getProducts st filters)), st))"

definition post_products_handler :: "env \<Rightarrow> handler" where
  "post_products_handler env req st =
     (case insertProductSchema_parse env (req_body req) of
        Inl is \<Rightarrow> (zod_error is, st)
      | Inr data \<Rightarrow>
          (case createProduct env st data of
             (product, st') \<Rightarrow> (json_ok (ProductBody product), st')))"

definition post_products :: "env \<Rightarrow> handler" where
  "post_products env = admin_only env (post_products_handler env)"

subsection \<open>Order placement\<close>

text \<open>
  The argument of \<open>createOrderItem\<close> for one item. Building it throws (\<open>None\<close>)
  when the item is \<open>undefined\<close> or \<open>null\<close>, or when its price has no
  \<open>toString\<close>.
\<close>

definition order_item_of :: "env \<Rightarrow> string \<Rightarrow> json \<Rightarrow> insert_order_item option" where
  "order_item_of env orderId item =
     (case get_prop item ''productId'' of
        None \<Rightarrow> None
      | Some productId \<Rightarrow>
          (case get_prop item ''quantity'' of
             None \<Rightarrow> None
           | Some quantity \<Rightarrow>
               (case get_prop item ''price'' of
                  None \<Rightarrow> None
                | Some price \<Rightarrow>
                    (case js_toString (showNum env) price of
                       None \<Rightarrow> None
                     | Some priceText \<Rightarrow>
                         Some \<lparr>ioi_orderId = orderId,
                               ioi_productId = productId,
                               ioi_quantity = quantity,
                               ioi_price = priceText\<rparr>))))"

text \<open>
  The loop over the items. When building an item's row throws, or the engine rejects
  the insert, the loop stops, and what was written stays written. The flag tells
  whether the loop ran to its end.
\<close>

fun create_items :: "env \<Rightarrow> string \<Rightarrow> json list \<Rightarrow> store \<Rightarrow> bool \<times> store" where
  "create_items env orderId [] st = (True, st)"
| "create_items env orderId (item # rest) st =
     (case order_item_of env orderId item of
        None \<Rightarrow> (False, st)
      | Some ioi \<Rightarrow>
          (case createOrderItem env st ioi of
             None \<Rightarrow> (False, st)
           | Some (row, st') \<Rightarrow> create_items env orderId rest st'))"

definition post_orders_handler :: "env \<Rightarrow> handler" where
  "post_orders_handler env req st =
     (case (get_prop (req_body req) ''items'', get_prop (req_body req) ''totalPrice'') of
        (Some items, Some totalPrice) \<Rightarrow>
          (if \<not> truthy items \<or> \<not> isArray items \<or> (case items of JArr xs \<Rightarrow> xs = [] | _ \<Rightarrow> False)
           then (json_message 400 ''Order items are required'', st)
           else
             (case (req_user req, js_toString (showNum env) totalPrice) of
                (Some u, Some totalText) \<Rightarrow>
                  (case createOrder env st
                          \<lparr>io_userId = u_id u,
                           io_totalPrice = totalText,
                           io_status = Some ''pending'',
                           io_customerEmail = Some (u_email u)\<rparr> of
                     None \<Rightarrow> (internal_error, st)
                   | Some (order, st') \<Rightarrow>
                       (case create_items env (o_id order)
                               (case items of JArr xs \<Rightarrow> xs | _ \<Rightarrow> []) st' of
                          (True, st'') \<Rightarrow> (json_ok (OrderBody order), st'')
                        | (False, st'') \<Rightarrow> (internal_error, st'')))
              | _ \<Rightarrow> (internal_error, st)))
      | _ \<Rightarrow> (internal_error, st))"

definition post_orders :: "env \<Rightarrow> handler" where
  "post_orders env = protected env (post_orders_handler env)"

section \<open>The client cart (client/src/lib/cart.ts)\<close>

text \<open>
  Prices, quantities and the two running figures are JavaScript numbers. The cart uses
  the literals 0 and 1, \<open>+\<close>, \<open>*\<close> and \<open><=\<close> on them; these are the runtime's and are
  passed in, over any carrier of numbers (\<open>NaN\<close> and the rounding of \<open>+\<close> and \<open>*\<close>
  included). \<open>reduce\<close> is the left fold it is.
\<close>

record 'n num_ops =
  n_zero :: 'n
  n_one :: 'n
  n_add :: "'n \<Rightarrow> 'n \<Rightarrow> 'n"
  n_mul :: "'n \<Rightarrow> 'n \<Rightarrow> 'n"
  n_le :: "'n \<Rightarrow> 'n \<Rightarrow> bool"

record 'n cart_item =
  ci_id :: string
  ci_name :: string
  ci_price :: 'n
  ci_image :: string
  ci_quantity :: 'n


record 'n cart_state =
  items :: "'n cart_item list"
  itemCount :: 'n
  total :: 'n

definition count_of :: "'n num_ops \<Rightarrow> 'n cart_item list \<Rightarrow> 'n" where
  "count_of ops newItems =
     foldl (\<lambda>sum item. n_add ops sum (ci_quantity item)) (n_zero ops) newItems"

definition total_of :: "'n num_ops \<Rightarrow> 'n cart_item list \<Rightarrow> 'n" where
  "total_of ops newItems =
     foldl (\<lambda>sum item. n_add ops sum (n_mul ops (ci_price item) (ci_quantity item)))
       (n_zero ops) newItems"











section \<open>Sample data\<close>

text \<open>One environment, one store and a few requests, for evaluating the handlers.\<close>

definition register_fields :: "string list" where
  "register_fields = [''username'', ''email'', ''password'', ''role'', ''confirmPassword'']"

text \<open>
  A stand-in for the insert schema of products: name and image are texts, the price is
  decimal text (read here from a short table), a number for the price is rejected.
\<close>

definition sample_parse_product :: "json \<Rightarrow> zod_issue list + insert_product" where
  "sample_parse_product b =
     (case (get_prop b ''name'', get_prop b ''image'', get_prop b ''price'') of
        (Some (JStr n), Some (JStr i), Some (JStr p)) \<Rightarrow>
          (case map_of [(''10.00'', 10), (''150.00'', 150), (''300.00'', 300)] p of
             None \<Rightarrow> Inl [(''price'', ''Invalid price'')]
           | Some price \<Rightarrow>
               Inr \<lparr>ip_name = n, ip_description = None, ip_price = price, ip_image = i,
                    ip_categoryId = None, ip_stock = None,
                    ip_rating =
                      (case get_prop b ''rating'' of Some (JStr r) \<Rightarrow> Some r | _ \<Rightarrow> None),
                    ip_reviewCount =
                      (case get_prop b ''reviewCount'' of
                         Some (JNum c) \<Rightarrow> Some (floor c)
                       | _ \<Rightarrow> None),
                    ip_isActive =
                      (case get_prop b ''isActive'' of Some (JBool a) \<Rightarrow> Some a | _ \<Rightarrow> None)\<rparr>)
      | (Some (JStr n), Some (JStr i), Some (JNum p)) \<Rightarrow>
          Inl [(''price'', ''Expected string, received number'')]
      | _ \<Rightarrow> Inl [(''name'', ''Required'')])"

definition sample_env :: env where
  "sample_env =
     \<lparr>jwt_verify = (\<lambda>t. if t = ''t-alice'' then Some ''u1''
                         else if t = ''t-root'' then Some ''u2''
                         else if t = ''t-gone'' then Some ''u9'' else None),
      jwt_sign = (\<lambda>i. ''t-'' @ i),
      bcrypt_hash = (\<lambda>p. ''h:'' @ p),
      bcrypt_compare = (\<lambda>p h. h = ''h:'' @ p),
      validEmail = (\<lambda>e. CHR ''@'' \<in> set e),
      showNum = (\<lambda>n. case map_of [(25, ''25''), (10, ''10''), (5, ''5''),
                                      (36.5892, ''36.5892''), (1000000000, ''1000000000'')] n of
                       None \<Rightarrow> ''0''
                     | Some t \<Rightarrow> t),
      parseFloat = (\<lambda>q. if q = ''100'' then Num 100 else if q = ''200'' then Num 200 else NaN),
      gen_random_uuid = (\<lambda>n. ''row-'' @ replicate n (CHR ''i'')),
      pg_numeric = map_of [(''25'', ''25.00''), (''10'', ''10.00''), (''5'', ''5.00''),
                           (''36.5892'', ''36.59'')],
      pg_integer = (\<lambda>v. case v of
                           JNum n \<Rightarrow> map_of [(1, 1), (2, 2), (3, 3)] n
                         | _ \<Rightarrow> None),
      pg_varchar = (\<lambda>v. case v of JStr t \<Rightarrow> Some t | _ \<Rightarrow> None),
      insertProductSchema_parse = sample_parse_product\<rparr>"

definition alice :: user where
  "alice = \<lparr>u_id = ''u1'', u_username = ''alice'', u_email = ''alice@shop.test'',
            u_password = ''h:secret1'', u_role = ''user''\<rparr>"

definition root :: user where
  "root = \<lparr>u_id = ''u2'', u_username = ''root'', u_email = ''root@shop.test'',
           u_password = ''h:secret2'', u_role = ''admin''\<rparr>"

definition lamp :: product where
  "lamp = \<lparr>p_id = ''p1'', p_name = ''Lamp'', p_description = None, p_price = 150,
           p_image = ''lamp.png'', p_categoryId = Some ''c1'', p_stock = 3,
           p_rating = Some ''0.0'', p_reviewCount = Some 0, p_isActive = Some True\<rparr>"

definition desk :: product where
  "desk = \<lparr>p_id = ''p2'', p_name = ''Oak Desk'', p_description = Some ''Solid wood'',
           p_price = 300, p_image = ''desk.png'', p_categoryId = Some ''c2'', p_stock = 1,
           p_rating = Some ''0.0'', p_reviewCount = Some 0, p_isActive = Some True\<rparr>"

definition sample_store :: store where
  "sample_store = \<lparr>users = [alice, root], products = [lamp, desk], orders = [],
                   orderItems = [], inserted = 4\<rparr>"

definition request_of :: "string option \<Rightarrow> json \<Rightarrow> request" where
  "request_of a b = \<lparr>req_authorization = a, req_body = b, req_query = (\<lambda>k. None),
                     req_user = None\<rparr>"

definition line1 :: json where
  "line1 = JObj [(''productId'', JStr ''p1''), (''quantity'', JNum 2), (''price'', JNum 10)]"

definition line2 :: json where
  "line2 = JObj [(''productId'', JStr ''p2''), (''quantity'', JNum 1), (''price'', JNum 5)]"

definition order_request :: request where
  "order_request =
     request_of (Some ''Bearer t-alice'')
       (JObj [(''items'', JArr [line1, line2]), (''totalPrice'', JNum 25)])"

definition no_total_request :: request where
  "no_total_request = request_of (Some ''Bearer t-alice'') (JObj [(''items'', JArr [line1])])"

definition unpriced_request :: request where
  "unpriced_request =
     request_of (Some ''Bearer t-alice'')
       (JObj [(''items'', JArr [JObj [(''productId'', JStr ''p1''), (''quantity'', JNum 2)]]),
              (''totalPrice'', JNum 25)])"

definition overflow_request :: request where
  "overflow_request =
     request_of (Some ''Bearer t-alice'')
       (JObj [(''items'', JArr [line1]), (''totalPrice'', JNum 1000000000)])"

definition unknown_product_request :: request where
  "unknown_product_request =
     request_of (Some ''Bearer t-alice'')
       (JObj [(''items'',
               JArr [line1,
                     JObj [(''productId'', JStr ''p9''), (''quantity'', JNum 1),
                           (''price'', JNum 5)]]),
              (''totalPrice'', JNum 25)])"

definition fractional_quantity_request :: request where
  "fractional_quantity_request =
     request_of (Some ''Bearer t-alice'')
       (JObj [(''items'',
               JArr [JObj [(''productId'', JStr ''p1''), (''quantity'', JNum 2.5),
                           (''price'', JNum 10)]]),
              (''totalPrice'', JNum 25)])"

definition rounded_request :: request where
  "rounded_request =
     request_of (Some ''Bearer t-alice'')
       (JObj [(''items'', JArr [line1]), (''totalPrice'', JNum 36.5892)])"

definition empty_items_request :: request where
  "empty_items_request =
     request_of (Some ''Bearer t-alice'') (JObj [(''items'', JArr []), (''totalPrice'', JNum 25)])"

definition product_request :: "string \<Rightarrow> request" where
  "product_request token =
     request_of (Some (''Bearer '' @ token))
       (JObj [(''name'', JStr ''Chair''), (''image'', JStr ''chair.png''), (''price'', JStr ''10.00''),
              (''rating'', JStr ''5.0''), (''reviewCount'', JNum 99), (''isActive'', JBool False)])"

definition register_request :: "string \<Rightarrow> string \<Rightarrow> string \<Rightarrow> string \<Rightarrow> request" where
  "register_request n e p c =
     request_of None
       (JObj [(''username'', JStr n), (''email'', JStr e), (''password'', JStr p),
              (''confirmPassword'', JStr c)])"

definition login_request :: "string \<Rightarrow> string \<Rightarrow> request" where
  "login_request e p = request_of None (JObj [(''email'', JStr e), (''password'', JStr p)])"

text \<open>
  Numbers for evaluating the cart: rationals with their own arithmetic, which is the
  arithmetic of the runtime on the values used here (whole numbers and 1/2).
\<close>

definition rat_ops :: "rat num_ops" where
  "rat_ops = \<lparr>n_zero = 0, n_one = 1, n_add = (+), n_mul = (*), n_le = (\<le>)\<rparr>"









definition search_request :: "string \<Rightarrow> request" where
  "search_request q =
     \<lparr>req_authorization = None, req_body = JObj [],
      req_query = (\<lambda>k. if k = ''search'' then Some q else None), req_user = None\<rparr>"

definition price_request :: "string \<Rightarrow> string \<Rightarrow> request" where
  "price_request lo hi =
     \<lparr>req_authorization = None, req_body = JObj [],
      req_query = (\<lambda>k. if k = ''minPrice'' then Some lo
                        else if k = ''maxPrice'' then Some hi else None),
      req_user = None\<rparr>"

section \<open>Facts about the gates\<close>

lemma authenticateToken_Next:
  assumes "authenticateToken env st req = Next req'"
  shows "\<exists>token userId u. bearer_token (req_authorization req) = Some token
           \<and> jwt_verify env token = Some userId \<and> getUser st userId = Some u
           \<and> req' = req\<lparr>req_user := Some u\<rparr>"
  using assms by (auto simp: authenticateToken_def split: option.splits)

lemma authenticateToken_Respond:
  assumes "authenticateToken env st req = Respond r"
  shows "status r \<noteq> 200"
  using assms by (auto simp: authenticateToken_def json_message_def split: option.splits)

lemma sample_auth_alice:
  "authenticateToken sample_env sample_store (request_of (Some ''Bearer t-alice'') b) =
     Next ((request_of (Some ''Bearer t-alice'') b)\<lparr>req_user := Some alice\<rparr>)"
  by (simp add: authenticateToken_def bearer_token_def request_of_def sample_env_def
      sample_store_def getUser_def alice_def root_def)


text \<open>
  C3. A protected route answers a request without a token with 401 "Access token
  required", a request whose token does not verify (malformed, expired, wrong signature)
  with 403 "Invalid token", and a request whose token verifies but names no stored user
  with 401 "Invalid token". In all three cases the answer and the store are the same
  whatever the wrapped handler \<open>h\<close> is: the handler is not run.
\<close>

theorem auth_gate_rejects_before_handler:
  "(bearer_token (req_authorization req) = None \<longrightarrow>
      protected env h req st = (json_message 401 ''Access token required'', st))
   \<and> (\<forall>token. bearer_token (req_authorization req) = Some token
          \<and> jwt_verify env token = None \<longrightarrow>
      protected env h req st = (json_message 403 ''Invalid token'', st))
   \<and> (\<forall>token userId. bearer_token (req_authorization req) = Some token
          \<and> jwt_verify env token = Some userId \<and> getUser st userId = None \<longrightarrow>
      protected env h req st = (json_message 401 ''Invalid token'', st))"
  by (simp add: protected_def authenticateToken_def)

theorem auth_gate_rejects_before_handler_witness:
  "bearer_token None = None
   \<and> protected sample_env (post_orders_handler sample_env) (request_of None JNull) sample_store
       = (json_message 401 ''Access token required'', sample_store)
   \<and> bearer_token (Some ''Bearer forged'') = Some ''forged''
   \<and> jwt_verify sample_env ''forged'' = None
   \<and> protected sample_env (post_orders_handler sample_env)
        (request_of (Some ''Bearer forged'') JNull) sample_store
       = (json_message 403 ''Invalid token'', sample_store)
   \<and> bearer_token (Some ''Bearer t-gone'') = Some ''t-gone''
   \<and> jwt_verify sample_env ''t-gone'' = Some ''u9''
   \<and> getUser sample_store ''u9'' = None
   \<and> protected sample_env (post_orders_handler sample_env)
        (request_of (Some ''Bearer t-gone'') JNull) sample_store
       = (json_message 401 ''Invalid token'', sample_store)"
proof -
  have f: "jwt_verify sample_env ''forged'' = None"
    and g: "jwt_verify sample_env ''t-gone'' = Some ''u9''"
    by (simp_all add: sample_env_def)
  have u: "getUser sample_store ''u9'' = None"
    by (simp add: sample_store_def getUser_def alice_def root_def)
  show ?thesis
    using auth_gate_rejects_before_handler
            [of "request_of None JNull" sample_env "post_orders_handler sample_env" sample_store]
          auth_gate_rejects_before_handler
            [of "request_of (Some ''Bearer forged'') JNull" sample_env
                "post_orders_handler sample_env" sample_store]
          auth_gate_rejects_before_handler
            [of "request_of (Some ''Bearer t-gone'') JNull" sample_env
                "post_orders_handler sample_env" sample_store]
          f g u
    by (simp add: bearer_token_def request_of_def)
qed

text \<open>
  C9. On an admin-only route the role gate runs once the auth gate has let the request
  through. A caller whose role is not "admin" gets 403 "Admin access required" and the
  store is untouched, whatever the request carries and whatever the wrapped handler
  \<open>h\<close> is. When the auth gate itself answers, that answer is the route's.
\<close>

theorem role_gate_forbids_non_admin:
  "(authenticateToken env st req = Next req' \<and> req_user req' = Some u \<and> u_role u \<noteq> ''admin''
      \<longrightarrow> admin_only env h req st = (json_message 403 ''Admin access required'', st))
   \<and> (authenticateToken env st req = Respond r \<longrightarrow> admin_only env h req st = (r, st))"
  by (simp add: admin_only_def requireAdmin_def)

theorem role_gate_forbids_non_admin_witness:
  "authenticateToken sample_env sample_store (product_request ''t-alice'')
     = Next ((product_request ''t-alice'')\<lparr>req_user := Some alice\<rparr>)
   \<and> u_role alice \<noteq> ''admin''
   \<and> post_products sample_env (product_request ''t-alice'') sample_store
       = (json_message 403 ''Admin access required'', sample_store)"
  using role_gate_forbids_non_admin
          [of sample_env sample_store "product_request ''t-alice''"
              "(product_request ''t-alice'')\<lparr>req_user := Some alice\<rparr>" alice
              "post_products_handler sample_env"]
        sample_auth_alice
  by (simp add: product_request_def post_products_def alice_def)


section \<open>Order placement\<close>

text \<open>
  C2. When the \<open>items\<close> field of the body is missing, is not a list, or is the empty
  list, the handler answers 400 "Order items are required" and returns the store as it
  was; this holds for any request, since the check comes before anything else is read.
  The route as a whole (auth gate, then handler) writes nothing either and never answers
  with a success.
\<close>

theorem post_orders_rejects_missing_items:
  assumes "get_prop (req_body req) ''items'' = Some its"
    and "its = JUndefined \<or> \<not> isArray its \<or> its = JArr []"
  shows "post_orders_handler env req st = (json_message 400 ''Order items are required'', st)
       \<and> snd (post_orders env req st) = st
       \<and> status (fst (post_orders env req st)) \<noteq> 200"
proof -
  have tp: "\<exists>tp. get_prop b ''totalPrice'' = Some tp" if "get_prop b ''items'' = Some its" for b
    using that by (cases b) auto
  have bad: "\<not> truthy its \<or> \<not> isArray its \<or> its = JArr []"
    using assms(2) by auto
  have h: "post_orders_handler env r st = (json_message 400 ''Order items are required'', st)"
    if "req_body r = req_body req" for r
    using assms(1) bad tp[OF assms(1)] that by (auto simp: post_orders_handler_def)
  show ?thesis
  proof (cases "authenticateToken env st req")
    case (Respond r)
    then show ?thesis using h[of req] authenticateToken_Respond[OF Respond]
      by (simp add: post_orders_def protected_def)
  next
    case (Next req')
    then obtain u where "req' = req\<lparr>req_user := Some u\<rparr>"
      using authenticateToken_Next by blast
    then have "req_body req' = req_body req" by simp
    then show ?thesis using h[of req] h[of req'] Next
      by (simp add: post_orders_def protected_def json_message_def)
  qed
qed

theorem post_orders_rejects_missing_items_witness:
  "get_prop (req_body empty_items_request) ''items'' = Some (JArr [])
   \<and> post_orders_handler sample_env empty_items_request sample_store
       = (json_message 400 ''Order items are required'', sample_store)
   \<and> snd (post_orders sample_env empty_items_request sample_store) = sample_store
   \<and> get_prop (req_body (request_of None (JObj []))) ''items'' = Some JUndefined
   \<and> post_orders_handler sample_env (request_of None (JObj [])) sample_store
       = (json_message 400 ''Order items are required'', sample_store)
   \<and> get_prop (req_body (request_of None (JObj [(''items'', JStr ''p1'')]))) ''items''
       = Some (JStr ''p1'')
   \<and> post_orders_handler sample_env (request_of None (JObj [(''items'', JStr ''p1'')])) sample_store
       = (json_message 400 ''Order items are required'', sample_store)"
proof -
  have e: "get_prop (req_body empty_items_request) ''items'' = Some (JArr [])"
    by (simp add: empty_items_request_def request_of_def)
  have m: "get_prop (req_body (request_of None (JObj []))) ''items'' = Some JUndefined"
    by (simp add: request_of_def)
  have n: "get_prop (req_body (request_of None (JObj [(''items'', JStr ''p1'')]))) ''items''
             = Some (JStr ''p1'')"
    by (simp add: request_of_def)
  show ?thesis
    using e m n
      post_orders_rejects_missing_items[OF e, of sample_env sample_store]
      post_orders_rejects_missing_items[OF m, of sample_env sample_store]
      post_orders_rejects_missing_items[OF n, of sample_env sample_store]
    by simp
qed

lemma order_item_of_Some:
  assumes "order_item_of env oid item = Some ioi"
  shows "ioi_orderId ioi = oid
       \<and> get_prop item ''productId'' = Some (ioi_productId ioi)
       \<and> get_prop item ''quantity'' = Some (ioi_quantity ioi)
       \<and> (\<exists>price. get_prop item ''price'' = Some price
              \<and> js_toString (showNum env) price = Some (ioi_price ioi))"
  using assms by (auto simp: order_item_of_def split: option.splits)

lemma order_item_of_priced:
  assumes "get_prop item ''productId'' = Some productId"
    and "get_prop item ''quantity'' = Some quantity"
    and "get_prop item ''price'' = Some price"
    and "js_toString (showNum env) price = Some priceText"
  shows "order_item_of env oid item =
           Some \<lparr>ioi_orderId = oid, ioi_productId = productId, ioi_quantity = quantity,
                 ioi_price = priceText\<rparr>"
  using assms by (simp add: order_item_of_def)

lemma getUser_stored:
  assumes "getUser st i = Some u"
  shows "u_id u \<in> set (map u_id (users st))"
  using assms by (auto simp: getUser_def find_Some_iff)

text \<open>
  The loop over a list of items that all build and that the engine accepts: it runs to
  its end and appends one row per item, in the order of the list.
\<close>

lemma create_items_ok:
  assumes "\<forall>item\<in>set xs. \<exists>ioi productId quantity price.
             order_item_of env oid item = Some ioi
           \<and> pg_varchar env (ioi_productId ioi) = Some productId
           \<and> productId \<in> set (map p_id (products st))
           \<and> pg_integer env (ioi_quantity ioi) = Some quantity
           \<and> pg_numeric env (ioi_price ioi) = Some price"
    and "oid \<in> set (map o_id (orders st))"
  shows "\<exists>rows. create_items env oid xs st =
                  (True, st\<lparr>orderItems := orderItems st @ rows,
                             inserted := inserted st + length xs\<rparr>)
          \<and> length rows = length xs
          \<and> (\<forall>k<length xs. \<exists>ioi.
                 order_item_of env oid (xs ! k) = Some ioi
               \<and> oi_orderId (rows ! k) = oid
               \<and> pg_varchar env (ioi_productId ioi) = Some (oi_productId (rows ! k))
               \<and> pg_integer env (ioi_quantity ioi) = Some (oi_quantity (rows ! k))
               \<and> pg_numeric env (ioi_price ioi) = Some (oi_price (rows ! k)))"
  using assms
proof (induction xs arbitrary: st)
  case Nil
  then show ?case by simp
next
  case (Cons item rest)
  from Cons.prems(1) obtain ioi productId quantity price where
    ioi: "order_item_of env oid item = Some ioi"
    and rd: "pg_varchar env (ioi_productId ioi) = Some productId"
            "productId \<in> set (map p_id (products st))"
            "pg_integer env (ioi_quantity ioi) = Some quantity"
            "pg_numeric env (ioi_price ioi) = Some price"
    by auto
  have oid: "ioi_orderId ioi = oid" using order_item_of_Some[OF ioi] by simp
  define row where
    "row = \<lparr>oi_id = gen_random_uuid env (inserted st), oi_orderId = oid,
            oi_productId = productId, oi_quantity = quantity, oi_price = price\<rparr>"
  define st1 where
    "st1 = st\<lparr>orderItems := orderItems st @ [row], inserted := Suc (inserted st)\<rparr>"
  have ins: "createOrderItem env st ioi = Some (row, st1)"
    using rd oid Cons.prems(2) by (simp add: createOrderItem_def row_def st1_def Let_def)
  have keep: "products st1 = products st" "orders st1 = orders st"
    by (simp_all add: st1_def)
  have "\<forall>item\<in>set rest. \<exists>ioi productId quantity price.
             order_item_of env oid item = Some ioi
           \<and> pg_varchar env (ioi_productId ioi) = Some productId
           \<and> productId \<in> set (map p_id (products st1))
           \<and> pg_integer env (ioi_quantity ioi) = Some quantity
           \<and> pg_numeric env (ioi_price ioi) = Some price"
    using Cons.prems(1) unfolding keep by simp
  moreover have "oid \<in> set (map o_id (orders st1))"
    using Cons.prems(2) unfolding keep .
  ultimately obtain rows where
    r: "create_items env oid rest st1 =
          (True, st1\<lparr>orderItems := orderItems st1 @ rows, inserted := inserted st1 + length rest\<rparr>)"
       "length rows = length rest"
       "\<forall>k<length rest. \<exists>ioi.
                 order_item_of env oid (rest ! k) = Some ioi
               \<and> oi_orderId (rows ! k) = oid
               \<and> pg_varchar env (ioi_productId ioi) = Some (oi_productId (rows ! k))
               \<and> pg_integer env (ioi_quantity ioi) = Some (oi_quantity (rows ! k))
               \<and> pg_numeric env (ioi_price ioi) = Some (oi_price (rows ! k))"
    using Cons.IH[of st1] by blast
  have "create_items env oid (item # rest) st =
          (True, st\<lparr>orderItems := orderItems st @ (row # rows),
                     inserted := inserted st + length (item # rest)\<rparr>)"
    using ioi ins r(1) by (simp add: st1_def)
  moreover have "length (row # rows) = length (item # rest)" using r(2) by simp
  moreover have "\<forall>k<length (item # rest). \<exists>ioi.
                 order_item_of env oid ((item # rest) ! k) = Some ioi
               \<and> oi_orderId ((row # rows) ! k) = oid
               \<and> pg_varchar env (ioi_productId ioi) = Some (oi_productId ((row # rows) ! k))
               \<and> pg_integer env (ioi_quantity ioi) = Some (oi_quantity ((row # rows) ! k))
               \<and> pg_numeric env (ioi_price ioi) = Some (oi_price ((row # rows) ! k))"
  proof (intro allI impI)
    fix k assume "k < length (item # rest)"
    then show "\<exists>ioi.
                 order_item_of env oid ((item # rest) ! k) = Some ioi
               \<and> oi_orderId ((row # rows) ! k) = oid
               \<and> pg_varchar env (ioi_productId ioi) = Some (oi_productId ((row # rows) ! k))
               \<and> pg_integer env (ioi_quantity ioi) = Some (oi_quantity ((row # rows) ! k))
               \<and> pg_numeric env (ioi_price ioi) = Some (oi_price ((row # rows) ! k))"
      using ioi rd r(3) by (cases k) (auto simp: row_def)
  qed
  ultimately show ?case by blast
qed

text \<open>
  C1, as the code has it. Take a request that passed the auth gate as user \<open>u\<close>, whose
  \<open>items\<close> is a non-empty list, whose \<open>totalPrice\<close> has a string form that the engine
  reads into \<open>numeric(10,2)\<close>, and whose items each carry a product id the engine reads
  as the id of a stored product, a quantity it reads as an integer, and a price with a
  string form it reads into \<open>numeric(10,2)\<close>. Then the route appends exactly one order
  (owner \<open>u\<close>, status "pending", the caller's e-mail, the caller's total as the engine
  stored it) and, after it, one order item per input item in the order of the list, each
  with the new order's id and that item's product, quantity and price as stored; users
  and products are untouched, and the answer is the stored order alone.
\<close>

theorem post_orders_writes_order_then_items:
  assumes auth: "authenticateToken env st req = Next req'" "req_user req' = Some u"
    and its: "get_prop (req_body req) ''items'' = Some (JArr xs)" "xs \<noteq> []"
    and tot: "get_prop (req_body req) ''totalPrice'' = Some totalPrice"
             "js_toString (showNum env) totalPrice = Some totalText"
             "pg_numeric env totalText = Some storedTotal"
    and lines: "\<forall>item\<in>set xs. \<exists>productId quantity price priceText pid q storedPrice.
                    get_prop item ''productId'' = Some productId
                  \<and> pg_varchar env productId = Some pid
                  \<and> pid \<in> set (map p_id (products st))
                  \<and> get_prop item ''quantity'' = Some quantity
                  \<and> pg_integer env quantity = Some q
                  \<and> get_prop item ''price'' = Some price
                  \<and> js_toString (showNum env) price = Some priceText
                  \<and> pg_numeric env priceText = Some storedPrice"
  shows "\<exists>ord rows st'.
           post_orders env req st = (json_ok (OrderBody ord), st')
         \<and> orders st' = orders st @ [ord]
         \<and> o_userId ord = u_id u \<and> o_status ord = ''pending''
         \<and> o_customerEmail ord = Some (u_email u) \<and> o_totalPrice ord = storedTotal
         \<and> orderItems st' = orderItems st @ rows \<and> length rows = length xs
         \<and> (\<forall>k<length xs.
               oi_orderId (rows ! k) = o_id ord
             \<and> (\<exists>productId. get_prop (xs ! k) ''productId'' = Some productId
                    \<and> pg_varchar env productId = Some (oi_productId (rows ! k)))
             \<and> (\<exists>quantity. get_prop (xs ! k) ''quantity'' = Some quantity
                    \<and> pg_integer env quantity = Some (oi_quantity (rows ! k)))
             \<and> (\<exists>price priceText. get_prop (xs ! k) ''price'' = Some price
                    \<and> js_toString (showNum env) price = Some priceText
                    \<and> pg_numeric env priceText = Some (oi_price (rows ! k))))
         \<and> users st' = users st \<and> products st' = products st"
proof -
  from auth obtain token userId u' where
    g: "getUser st userId = Some u'" and "req' = req\<lparr>req_user := Some u'\<rparr>"
    using authenticateToken_Next by blast
  with auth(2) have req': "req' = req\<lparr>req_user := Some u\<rparr>" and gu: "getUser st userId = Some u"
    by simp_all
  have fk: "u_id u \<in> set (map u_id (users st))" using getUser_stored[OF gu] .
  define ord where
    "ord = \<lparr>o_id = gen_random_uuid env (inserted st), o_userId = u_id u,
            o_totalPrice = storedTotal, o_status = ''pending'',
            o_customerEmail = Some (u_email u)\<rparr>"
  define st1 where "st1 = st\<lparr>orders := orders st @ [ord], inserted := Suc (inserted st)\<rparr>"
  have co: "createOrder env st \<lparr>io_userId = u_id u, io_totalPrice = totalText,
      io_status = Some ''pending'', io_customerEmail = Some (u_email u)\<rparr> = Some (ord, st1)"
    using tot(3) fk by (simp add: createOrder_def ord_def st1_def Let_def)
  have ord: "o_userId ord = u_id u" "o_status ord = ''pending''"
            "o_customerEmail ord = Some (u_email u)" "o_totalPrice ord = storedTotal"
    by (simp_all add: ord_def)
  have keep: "products st1 = products st" by (simp add: st1_def)
  have "\<forall>item\<in>set xs. \<exists>ioi productId quantity price.
             order_item_of env (o_id ord) item = Some ioi
           \<and> pg_varchar env (ioi_productId ioi) = Some productId
           \<and> productId \<in> set (map p_id (products st1))
           \<and> pg_integer env (ioi_quantity ioi) = Some quantity
           \<and> pg_numeric env (ioi_price ioi) = Some price"
  proof
    fix item assume "item \<in> set xs"
    with lines obtain productId quantity price priceText pid q storedPrice where
      a: "get_prop item ''productId'' = Some productId" "pg_varchar env productId = Some pid"
         "pid \<in> set (map p_id (products st))"
         "get_prop item ''quantity'' = Some quantity" "pg_integer env quantity = Some q"
         "get_prop item ''price'' = Some price"
         "js_toString (showNum env) price = Some priceText"
         "pg_numeric env priceText = Some storedPrice"
      by blast
    from order_item_of_priced[OF a(1) a(4) a(6) a(7), of "o_id ord"] a
    show "\<exists>ioi productId quantity price.
             order_item_of env (o_id ord) item = Some ioi
           \<and> pg_varchar env (ioi_productId ioi) = Some productId
           \<and> productId \<in> set (map p_id (products st1))
           \<and> pg_integer env (ioi_quantity ioi) = Some quantity
           \<and> pg_numeric env (ioi_price ioi) = Some price"
      unfolding keep by simp
  qed
  moreover have "o_id ord \<in> set (map o_id (orders st1))" by (simp add: st1_def)
  ultimately obtain rows where
    r: "create_items env (o_id ord) xs st1 =
          (True, st1\<lparr>orderItems := orderItems st1 @ rows, inserted := inserted st1 + length xs\<rparr>)"
       "length rows = length xs"
       "\<forall>k<length xs. \<exists>ioi.
                 order_item_of env (o_id ord) (xs ! k) = Some ioi
               \<and> oi_orderId (rows ! k) = o_id ord
               \<and> pg_varchar env (ioi_productId ioi) = Some (oi_productId (rows ! k))
               \<and> pg_integer env (ioi_quantity ioi) = Some (oi_quantity (rows ! k))
               \<and> pg_numeric env (ioi_price ioi) = Some (oi_price (rows ! k))"
    using create_items_ok[of xs env "o_id ord" st1] by blast
  define st2 where
    "st2 = st1\<lparr>orderItems := orderItems st1 @ rows, inserted := inserted st1 + length xs\<rparr>"
  have "post_orders_handler env req' st = (json_ok (OrderBody ord), st2)"
    using its tot(1,2) co r(1) by (simp add: post_orders_handler_def req' st2_def)
  then have run: "post_orders env req st = (json_ok (OrderBody ord), st2)"
    using auth(1) by (simp add: post_orders_def protected_def)
  have rows: "\<forall>k<length xs.
               oi_orderId (rows ! k) = o_id ord
             \<and> (\<exists>productId. get_prop (xs ! k) ''productId'' = Some productId
                    \<and> pg_varchar env productId = Some (oi_productId (rows ! k)))
             \<and> (\<exists>quantity. get_prop (xs ! k) ''quantity'' = Some quantity
                    \<and> pg_integer env quantity = Some (oi_quantity (rows ! k)))
             \<and> (\<exists>price priceText. get_prop (xs ! k) ''price'' = Some price
                    \<and> js_toString (showNum env) price = Some priceText
                    \<and> pg_numeric env priceText = Some (oi_price (rows ! k)))"
  proof (intro allI impI)
    fix k assume "k < length xs"
    with r(3) obtain ioi where
      i: "order_item_of env (o_id ord) (xs ! k) = Some ioi"
         "oi_orderId (rows ! k) = o_id ord"
         "pg_varchar env (ioi_productId ioi) = Some (oi_productId (rows ! k))"
         "pg_integer env (ioi_quantity ioi) = Some (oi_quantity (rows ! k))"
         "pg_numeric env (ioi_price ioi) = Some (oi_price (rows ! k))"
      by blast
    from order_item_of_Some[OF i(1)] i(2-5)
    show "oi_orderId (rows ! k) = o_id ord
             \<and> (\<exists>productId. get_prop (xs ! k) ''productId'' = Some productId
                    \<and> pg_varchar env productId = Some (oi_productId (rows ! k)))
             \<and> (\<exists>quantity. get_prop (xs ! k) ''quantity'' = Some quantity
                    \<and> pg_integer env quantity = Some (oi_quantity (rows ! k)))
             \<and> (\<exists>price priceText. get_prop (xs ! k) ''price'' = Some price
                    \<and> js_toString (showNum env) price = Some priceText
                    \<and> pg_numeric env priceText = Some (oi_price (rows ! k)))"
      by auto
  qed
  have "orders st2 = orders st @ [ord]" "orderItems st2 = orderItems st @ rows"
       "users st2 = users st" "products st2 = products st"
    by (simp_all add: st2_def st1_def)
  with run ord r(2) rows show ?thesis by blast
qed

text \<open>
  The request of the specification's example: two lines (2 of p1 at 10, 1 of p2 at 5) and
  the total 25, from alice. One order whose stored total is "25.00", then the two rows,
  in that order, with the stored prices "10.00" and "5.00".
\<close>

theorem post_orders_writes_order_then_items_witness:
  "authenticateToken sample_env sample_store order_request
     = Next (order_request\<lparr>req_user := Some alice\<rparr>)
   \<and> get_prop (req_body order_request) ''items'' = Some (JArr [line1, line2])
   \<and> get_prop (req_body order_request) ''totalPrice'' = Some (JNum 25)
   \<and> js_toString (showNum sample_env) (JNum 25) = Some ''25''
   \<and> pg_numeric sample_env ''25'' = Some ''25.00''
   \<and> (\<exists>ord rows st'.
         post_orders sample_env order_request sample_store = (json_ok (OrderBody ord), st')
       \<and> orders st' = [ord] \<and> o_userId ord = ''u1'' \<and> o_status ord = ''pending''
       \<and> o_customerEmail ord = Some ''alice@shop.test'' \<and> o_totalPrice ord = ''25.00''
       \<and> orderItems st' = rows \<and> length rows = 2)
   \<and> post_orders sample_env order_request sample_store =
       (json_ok (OrderBody \<lparr>o_id = ''row-iiii'', o_userId = ''u1'', o_totalPrice = ''25.00'',
                            o_status = ''pending'', o_customerEmail = Some ''alice@shop.test''\<rparr>),
        sample_store
          \<lparr>orders := [\<lparr>o_id = ''row-iiii'', o_userId = ''u1'', o_totalPrice = ''25.00'',
                        o_status = ''pending'', o_customerEmail = Some ''alice@shop.test''\<rparr>],
           orderItems :=
             [\<lparr>oi_id = ''row-iiiii'', oi_orderId = ''row-iiii'', oi_productId = ''p1'',
               oi_quantity = 2, oi_price = ''10.00''\<rparr>,
              \<lparr>oi_id = ''row-iiiiii'', oi_orderId = ''row-iiii'', oi_productId = ''p2'',
               oi_quantity = 1, oi_price = ''5.00''\<rparr>],
           inserted := 7\<rparr>)"
proof -
  have a: "authenticateToken sample_env sample_store order_request
             = Next (order_request\<lparr>req_user := Some alice\<rparr>)"
    using sample_auth_alice by (simp add: order_request_def)
  have u: "req_user (order_request\<lparr>req_user := Some alice\<rparr>) = Some alice" by simp
  have i: "get_prop (req_body order_request) ''items'' = Some (JArr [line1, line2])"
    by (simp add: order_request_def request_of_def)
  have n: "[line1, line2] \<noteq> []" by simp
  have t: "get_prop (req_body order_request) ''totalPrice'' = Some (JNum 25)"
    by (simp add: order_request_def request_of_def)
  have s: "js_toString (showNum sample_env) (JNum 25) = Some ''25''"
    by (simp add: sample_env_def)
  have d: "pg_numeric sample_env ''25'' = Some ''25.00''"
    by (simp add: sample_env_def)
  have p: "\<forall>item\<in>set [line1, line2].
             \<exists>productId quantity price priceText pid q storedPrice.
                    get_prop item ''productId'' = Some productId
                  \<and> pg_varchar sample_env productId = Some pid
                  \<and> pid \<in> set (map p_id (products sample_store))
                  \<and> get_prop item ''quantity'' = Some quantity
                  \<and> pg_integer sample_env quantity = Some q
                  \<and> get_prop item ''price'' = Some price
                  \<and> js_toString (showNum sample_env) price = Some priceText
                  \<and> pg_numeric sample_env priceText = Some storedPrice"
    by (simp add: line1_def line2_def sample_env_def sample_store_def lamp_def desk_def)
  have "post_orders_handler sample_env (order_request\<lparr>req_user := Some alice\<rparr>) sample_store =
       (json_ok (OrderBody \<lparr>o_id = ''row-iiii'', o_userId = ''u1'', o_totalPrice = ''25.00'',
                            o_status = ''pending'', o_customerEmail = Some ''alice@shop.test''\<rparr>),
        sample_store
          \<lparr>orders := [\<lparr>o_id = ''row-iiii'', o_userId = ''u1'', o_totalPrice = ''25.00'',
                        o_status = ''pending'', o_customerEmail = Some ''alice@shop.test''\<rparr>],
           orderItems :=
             [\<lparr>oi_id = ''row-iiiii'', oi_orderId = ''row-iiii'', oi_productId = ''p1'',
               oi_quantity = 2, oi_price = ''10.00''\<rparr>,
              \<lparr>oi_id = ''row-iiiiii'', oi_orderId = ''row-iiii'', oi_productId = ''p2'',
               oi_quantity = 1, oi_price = ''5.00''\<rparr>],
           inserted := 7\<rparr>)"
    by (simp add: post_orders_handler_def order_request_def request_of_def createOrder_def
        createOrderItem_def order_item_of_def line1_def line2_def sample_env_def
        sample_store_def alice_def root_def lamp_def desk_def numeral_eq_Suc Let_def)
  with a have run: "post_orders sample_env order_request sample_store =
       (json_ok (OrderBody \<lparr>o_id = ''row-iiii'', o_userId = ''u1'', o_totalPrice = ''25.00'',
                            o_status = ''pending'', o_customerEmail = Some ''alice@shop.test''\<rparr>),
        sample_store
          \<lparr>orders := [\<lparr>o_id = ''row-iiii'', o_userId = ''u1'', o_totalPrice = ''25.00'',
                        o_status = ''pending'', o_customerEmail = Some ''alice@shop.test''\<rparr>],
           orderItems :=
             [\<lparr>oi_id = ''row-iiiii'', oi_orderId = ''row-iiii'', oi_productId = ''p1'',
               oi_quantity = 2, oi_price = ''10.00''\<rparr>,
              \<lparr>oi_id = ''row-iiiiii'', oi_orderId = ''row-iiii'', oi_productId = ''p2'',
               oi_quantity = 1, oi_price = ''5.00''\<rparr>],
           inserted := 7\<rparr>)"
    by (simp add: post_orders_def protected_def)
  from post_orders_writes_order_then_items[OF a u i n t s d p]
  obtain ord rows st' where
    "post_orders sample_env order_request sample_store = (json_ok (OrderBody ord), st')
       \<and> orders st' = orders sample_store @ [ord] \<and> o_userId ord = u_id alice
       \<and> o_status ord = ''pending''
       \<and> o_customerEmail ord = Some (u_email alice) \<and> o_totalPrice ord = ''25.00''
       \<and> orderItems st' = orderItems sample_store @ rows \<and> length rows = length [line1, line2]"
    by blast
  then have "\<exists>ord rows st'.
         post_orders sample_env order_request sample_store = (json_ok (OrderBody ord), st')
       \<and> orders st' = [ord] \<and> o_userId ord = ''u1'' \<and> o_status ord = ''pending''
       \<and> o_customerEmail ord = Some ''alice@shop.test'' \<and> o_totalPrice ord = ''25.00''
       \<and> orderItems st' = rows \<and> length rows = 2"
    by (simp add: sample_store_def alice_def)
  with a i t s d run show ?thesis by blast
qed

text \<open>
  C1 as it is stated fails on authenticated requests with a non-empty item list.
  Without a \<open>totalPrice\<close> the handler throws before it writes: the answer is 500 and
  no order exists. With a total but an item that carries no price, the order is written,
  the item is not, and the answer is 500, not the order. With the total 1000000000 the
  engine rejects the order (the column holds eight digits before the point): 500,
  nothing written. With a second item that names no stored product the order and the
  first item are written, the second is rejected, and the answer is 500. With the
  quantity 2.5 the order is written, the item is rejected, and the answer is 500. With
  the total 36.5892 the order is written and answered, and its total is the rounded
  "36.59".
\<close>

theorem post_orders_failures_and_rounding:
  "authenticateToken sample_env sample_store no_total_request
     = Next (no_total_request\<lparr>req_user := Some alice\<rparr>)
   \<and> get_prop (req_body no_total_request) ''items'' = Some (JArr [line1])
   \<and> post_orders sample_env no_total_request sample_store = (internal_error, sample_store)
   \<and> authenticateToken sample_env sample_store unpriced_request
     = Next (unpriced_request\<lparr>req_user := Some alice\<rparr>)
   \<and> get_prop (req_body unpriced_request) ''totalPrice'' = Some (JNum 25)
   \<and> post_orders sample_env unpriced_request sample_store =
       (internal_error,
        sample_store
          \<lparr>orders := [\<lparr>o_id = ''row-iiii'', o_userId = ''u1'', o_totalPrice = ''25.00'',
                        o_status = ''pending'', o_customerEmail = Some ''alice@shop.test''\<rparr>],
           inserted := 5\<rparr>)
   \<and> get_prop (req_body overflow_request) ''totalPrice'' = Some (JNum 1000000000)
   \<and> js_toString (showNum sample_env) (JNum 1000000000) = Some ''1000000000''
   \<and> pg_numeric sample_env ''1000000000'' = None
   \<and> post_orders sample_env overflow_request sample_store = (internal_error, sample_store)
   \<and> post_orders sample_env unknown_product_request sample_store =
       (internal_error,
        sample_store
          \<lparr>orders := [\<lparr>o_id = ''row-iiii'', o_userId = ''u1'', o_totalPrice = ''25.00'',
                        o_status = ''pending'', o_customerEmail = Some ''alice@shop.test''\<rparr>],
           orderItems :=
             [\<lparr>oi_id = ''row-iiiii'', oi_orderId = ''row-iiii'', oi_productId = ''p1'',
               oi_quantity = 2, oi_price = ''10.00''\<rparr>],
           inserted := 6\<rparr>)
   \<and> pg_integer sample_env (JNum 2.5) = None
   \<and> post_orders sample_env fractional_quantity_request sample_store =
       (internal_error,
        sample_store
          \<lparr>orders := [\<lparr>o_id = ''row-iiii'', o_userId = ''u1'', o_totalPrice = ''25.00'',
                        o_status = ''pending'', o_customerEmail = Some ''alice@shop.test''\<rparr>],
           inserted := 5\<rparr>)
   \<and> js_toString (showNum sample_env) (JNum 36.5892) = Some ''36.5892''
   \<and> post_orders sample_env rounded_request sample_store =
       (json_ok (OrderBody \<lparr>o_id = ''row-iiii'', o_userId = ''u1'', o_totalPrice = ''36.59'',
                            o_status = ''pending'', o_customerEmail = Some ''alice@shop.test''\<rparr>),
        sample_store
          \<lparr>orders := [\<lparr>o_id = ''row-iiii'', o_userId = ''u1'', o_totalPrice = ''36.59'',
                        o_status = ''pending'', o_customerEmail = Some ''alice@shop.test''\<rparr>],
           orderItems :=
             [\<lparr>oi_id = ''row-iiiii'', oi_orderId = ''row-iiii'', oi_productId = ''p1'',
               oi_quantity = 2, oi_price = ''10.00''\<rparr>],
           inserted := 6\<rparr>)
   \<and> internal_error = json_message 500 ''Internal server error''"
proof -
  have auth: "authenticateToken sample_env sample_store r = Next (r\<lparr>req_user := Some alice\<rparr>)"
    if "req_authorization r = Some ''Bearer t-alice''" "req_user r = None"
       "req_query r = (\<lambda>k. None)" for r
  proof -
    have "r = request_of (Some ''Bearer t-alice'') (req_body r)"
      using that by (simp add: request_of_def)
    then show ?thesis using sample_auth_alice[of "req_body r"] by simp
  qed
  have route: "post_orders sample_env r sample_store
                 = post_orders_handler sample_env (r\<lparr>req_user := Some alice\<rparr>) sample_store"
    if "req_authorization r = Some ''Bearer t-alice''" "req_user r = None"
       "req_query r = (\<lambda>k. None)" for r
    using auth[OF that] by (simp add: post_orders_def protected_def)
  have 1: "post_orders sample_env no_total_request sample_store = (internal_error, sample_store)"
    by (subst route)
       (simp_all add: no_total_request_def request_of_def post_orders_handler_def)
  have 2: "post_orders sample_env unpriced_request sample_store =
       (internal_error,
        sample_store
          \<lparr>orders := [\<lparr>o_id = ''row-iiii'', o_userId = ''u1'', o_totalPrice = ''25.00'',
                        o_status = ''pending'', o_customerEmail = Some ''alice@shop.test''\<rparr>],
           inserted := 5\<rparr>)"
    by (subst route)
       (simp_all add: unpriced_request_def request_of_def post_orders_handler_def
          createOrder_def order_item_of_def sample_env_def sample_store_def alice_def root_def
          numeral_eq_Suc Let_def)
  have 3: "post_orders sample_env overflow_request sample_store = (internal_error, sample_store)"
    by (subst route)
       (simp_all add: overflow_request_def request_of_def post_orders_handler_def
          createOrder_def sample_env_def Let_def)
  have 4: "post_orders sample_env unknown_product_request sample_store =
       (internal_error,
        sample_store
          \<lparr>orders := [\<lparr>o_id = ''row-iiii'', o_userId = ''u1'', o_totalPrice = ''25.00'',
                        o_status = ''pending'', o_customerEmail = Some ''alice@shop.test''\<rparr>],
           orderItems :=
             [\<lparr>oi_id = ''row-iiiii'', oi_orderId = ''row-iiii'', oi_productId = ''p1'',
               oi_quantity = 2, oi_price = ''10.00''\<rparr>],
           inserted := 6\<rparr>)"
    by (subst route)
       (simp_all add: unknown_product_request_def request_of_def post_orders_handler_def
          createOrder_def createOrderItem_def order_item_of_def line1_def sample_env_def
          sample_store_def alice_def root_def lamp_def desk_def numeral_eq_Suc Let_def)
  have 6: "post_orders sample_env fractional_quantity_request sample_store =
       (internal_error,
        sample_store
          \<lparr>orders := [\<lparr>o_id = ''row-iiii'', o_userId = ''u1'', o_totalPrice = ''25.00'',
                        o_status = ''pending'', o_customerEmail = Some ''alice@shop.test''\<rparr>],
           inserted := 5\<rparr>)"
    by (subst route)
       (simp_all add: fractional_quantity_request_def request_of_def post_orders_handler_def
          createOrder_def createOrderItem_def order_item_of_def sample_env_def
          sample_store_def alice_def root_def lamp_def desk_def numeral_eq_Suc Let_def)
  have 5: "post_orders sample_env rounded_request sample_store =
       (json_ok (OrderBody \<lparr>o_id = ''row-iiii'', o_userId = ''u1'', o_totalPrice = ''36.59'',
                            o_status = ''pending'', o_customerEmail = Some ''alice@shop.test''\<rparr>),
        sample_store
          \<lparr>orders := [\<lparr>o_id = ''row-iiii'', o_userId = ''u1'', o_totalPrice = ''36.59'',
                        o_status = ''pending'', o_customerEmail = Some ''alice@shop.test''\<rparr>],
           orderItems :=
             [\<lparr>oi_id = ''row-iiiii'', oi_orderId = ''row-iiii'', oi_productId = ''p1'',
               oi_quantity = 2, oi_price = ''10.00''\<rparr>],
           inserted := 6\<rparr>)"
    by (subst route)
       (simp_all add: rounded_request_def request_of_def post_orders_handler_def
          createOrder_def createOrderItem_def order_item_of_def line1_def sample_env_def
          sample_store_def alice_def root_def lamp_def desk_def numeral_eq_Suc Let_def)
  have a: "authenticateToken sample_env sample_store no_total_request
             = Next (no_total_request\<lparr>req_user := Some alice\<rparr>)"
          "authenticateToken sample_env sample_store unpriced_request
             = Next (unpriced_request\<lparr>req_user := Some alice\<rparr>)"
    by (rule auth; simp add: no_total_request_def unpriced_request_def request_of_def)+
  have b: "get_prop (req_body no_total_request) ''items'' = Some (JArr [line1])"
          "get_prop (req_body unpriced_request) ''totalPrice'' = Some (JNum 25)"
          "get_prop (req_body overflow_request) ''totalPrice'' = Some (JNum 1000000000)"
    by (simp_all add: no_total_request_def unpriced_request_def overflow_request_def
        request_of_def)
  have c: "js_toString (showNum sample_env) (JNum 1000000000) = Some ''1000000000''"
          "pg_numeric sample_env ''1000000000'' = None"
          "js_toString (showNum sample_env) (JNum 36.5892) = Some ''36.5892''"
          "pg_integer sample_env (JNum 2.5) = None"
    by (simp_all add: sample_env_def)
  show ?thesis
    using 1 2 3 4 5 6 a b c by (simp add: internal_error_def)
qed

section \<open>Registration and login\<close>

lemma z_string_Some: "z_string path v = (is, Some s) \<Longrightarrow> v = JStr s \<and> is = []"
  by (cases v) auto

lemma z_string_None: "z_string path v = (is, None) \<Longrightarrow> \<exists>m. is = [(path, m)]"
  by (cases v) auto

lemma z_string_min6_Some:
  "z_string_min6 path v = (is, Some s) \<Longrightarrow>
     v = JStr s \<and> (is = [] \<and> 6 \<le> length s \<or> (\<exists>m. is = [(path, m)]))"
  by (cases v) (auto simp: z_string_min6_def split: if_splits)

lemma z_string_min6_None: "z_string_min6 path v = (is, None) \<Longrightarrow> \<exists>m. is = [(path, m)]"
  by (cases v) (auto simp: z_string_min6_def split: if_splits)

lemma z_string_email_Some:
  "z_string_email valid path v = (is, Some s) \<Longrightarrow>
     v = JStr s \<and> (is = [] \<and> valid s \<or> (\<exists>m. is = [(path, m)]))"
  by (cases v) (auto simp: z_string_email_def split: if_splits)

lemma z_string_optional_Some: "z_string_optional path v = (is, Some r) \<Longrightarrow> is = []"
  by (cases v) auto

lemma z_string_optional_None:
  "z_string_optional path v = (is, None) \<Longrightarrow> \<exists>m. is = [(path, m)]"
  by (cases v) auto

text \<open>
  What the register schema does with an object: when it accepts, the four string fields
  are strings and the confirmation equals the password; when it rejects, there is a
  first issue and every issue belongs to one of the fields.
\<close>

lemma registerSchema_parse_JObj:
  fixes kvs :: "(string \<times> json) list"
  defines "f \<equiv> (\<lambda>k. case map_of kvs k of None \<Rightarrow> JUndefined | Some v \<Rightarrow> v)"
  shows "(\<forall>d. registerSchema_parse (JObj kvs) = Inr d \<longrightarrow>
            f ''username'' = JStr (r_username d) \<and> f ''email'' = JStr (r_email d) \<and>
            f ''password'' = JStr (r_password d) \<and> f ''confirmPassword'' = JStr (r_password d))
       \<and> (\<forall>is. registerSchema_parse (JObj kvs) = Inl is \<longrightarrow>
            is \<noteq> [] \<and> (\<forall>i\<in>set is. fst i \<in> set register_fields))"
proof -
  obtain iu vu where U: "z_string ''username'' (f ''username'') = (iu, vu)" by (metis surj_pair)
  obtain ie ve where E: "z_string ''email'' (f ''email'') = (ie, ve)" by (metis surj_pair)
  obtain ip vp where P: "z_string ''password'' (f ''password'') = (ip, vp)" by (metis surj_pair)
  obtain ir vr where R: "z_string_optional ''role'' (f ''role'') = (ir, vr)" by (metis surj_pair)
  obtain ic vc where C: "z_string_min6 ''confirmPassword'' (f ''confirmPassword'') = (ic, vc)"
    by (metis surj_pair)
  define A where "A = iu @ ie @ ip @ ir @ ic"
  have iu: "\<forall>i\<in>set iu. fst i = ''username''"
    using U z_string_Some z_string_None by (cases vu) fastforce+
  have ie: "\<forall>i\<in>set ie. fst i = ''email''"
    using E z_string_Some z_string_None by (cases ve) fastforce+
  have ip: "\<forall>i\<in>set ip. fst i = ''password''"
    using P z_string_Some z_string_None by (cases vp) fastforce+
  have ir: "\<forall>i\<in>set ir. fst i = ''role''"
    using R z_string_optional_Some z_string_optional_None by (cases vr) fastforce+
  have ic: "\<forall>i\<in>set ic. fst i = ''confirmPassword''"
    using C z_string_min6_Some z_string_min6_None by (cases vc) fastforce+
  have paths: "\<forall>i\<in>set A. fst i \<in> set register_fields"
    using iu ie ip ir ic by (auto simp: A_def register_fields_def)
  have unfold: "registerSchema_parse (JObj kvs) =
     (case (vu, ve, vp, vr, vc) of
        (Some u, Some e, Some p, Some r, Some c) \<Rightarrow>
          (case A @ (if p = c then [] else [(''confirmPassword'', ''Passwords don't match'')]) of
             [] \<Rightarrow> Inr \<lparr>r_username = u, r_email = e, r_password = p, r_role = r,
                        r_confirmPassword = c\<rparr>
           | is \<Rightarrow> Inl is)
      | _ \<Rightarrow> Inl A)"
    using U E P R C unfolding A_def by (simp add: registerSchema_parse_def f_def[symmetric])
  show ?thesis
  proof (cases "\<exists>u e p r c. vu = Some u \<and> ve = Some e \<and> vp = Some p \<and> vr = Some r \<and> vc = Some c")
    case True
    then obtain u e p r c
      where v: "vu = Some u" "ve = Some e" "vp = Some p" "vr = Some r" "vc = Some c"
      by blast
    have fs: "f ''username'' = JStr u" "f ''email'' = JStr e" "f ''password'' = JStr p"
             "f ''confirmPassword'' = JStr c"
      using U E P C v z_string_Some z_string_min6_Some by blast+
    show ?thesis
      using paths fs unfolding unfold v
      by (auto simp: register_fields_def split: list.splits if_splits)
  next
    case False
    then have none: "vu = None \<or> ve = None \<or> vp = None \<or> vr = None \<or> vc = None" by auto
    have "A \<noteq> []"
      using none U E P R C z_string_None z_string_optional_None z_string_min6_None
      unfolding A_def by fastforce
    moreover have "registerSchema_parse (JObj kvs) = Inl A"
      unfolding unfold using none
      by (cases vu; cases ve; cases vp; cases vr; cases vc; simp)
    ultimately show ?thesis using paths by simp
  qed
qed

lemma registerSchema_parse_Inr:
  assumes "registerSchema_parse b = Inr d"
  shows "get_prop b ''username'' = Some (JStr (r_username d))
       \<and> get_prop b ''email'' = Some (JStr (r_email d))
       \<and> get_prop b ''password'' = Some (JStr (r_password d))
       \<and> get_prop b ''confirmPassword'' = Some (JStr (r_password d))"
proof (cases b)
  case (JObj kvs)
  with assms registerSchema_parse_JObj[of kvs] show ?thesis by simp
qed (use assms in \<open>simp_all add: registerSchema_parse_def\<close>)

lemma loginSchema_parse_Inr:
  assumes "loginSchema_parse valid b = Inr d"
  shows "get_prop b ''email'' = Some (JStr (l_email d))
       \<and> get_prop b ''password'' = Some (JStr (l_password d))
       \<and> valid (l_email d) \<and> 6 \<le> length (l_password d)"
proof (cases b)
  case (JObj kvs)
  define f where "f = (\<lambda>k. case map_of kvs k of None \<Rightarrow> JUndefined | Some v \<Rightarrow> v)"
  obtain ie ve where E: "z_string_email valid ''email'' (f ''email'') = (ie, ve)"
    by (metis surj_pair)
  obtain ip vp where P: "z_string_min6 ''password'' (f ''password'') = (ip, vp)"
    by (metis surj_pair)
  have "(case (ie @ ip, ve, vp) of
           ([], Some e, Some p) \<Rightarrow> Inr \<lparr>l_email = e, l_password = p\<rparr>
         | (is, _, _) \<Rightarrow> Inl is) = Inr d"
    using assms E P by (simp add: loginSchema_parse_def JObj f_def[symmetric])
  then have "ie = [] \<and> ip = [] \<and> ve = Some (l_email d) \<and> vp = Some (l_password d)"
    by (cases ie; cases ip; cases ve; cases vp) auto
  with E P z_string_email_Some[of valid "''email''" "f ''email''" ie "l_email d"]
       z_string_min6_Some[of "''password''" "f ''password''" ip "l_password d"]
  show ?thesis by (simp add: JObj f_def)
qed (use assms in \<open>simp_all add: loginSchema_parse_def\<close>)

text \<open>
  C6. When the \<open>confirmPassword\<close> of the body differs from its \<open>password\<close>, the register
  schema rejects the body; the first issue belongs to one of the schema's fields, the
  answer is 400 with that issue's message, and for every store the answer is the same and
  the store comes back as it was (no user row is created).
\<close>

theorem register_rejects_mismatched_confirmation:
  assumes "get_prop (req_body req) ''password'' \<noteq> get_prop (req_body req) ''confirmPassword''"
  shows "\<exists>i is. registerSchema_parse (req_body req) = Inl (i # is)
           \<and> fst i \<in> set register_fields
           \<and> (\<forall>st. register env req st = (json_message 400 (snd i), st))"
proof -
  from assms obtain kvs where b: "req_body req = JObj kvs"
    by (cases "req_body req") auto
  have "\<And>d. registerSchema_parse (JObj kvs) \<noteq> Inr d"
    using assms registerSchema_parse_Inr[of "JObj kvs"] unfolding b by fastforce
  then obtain iss where rej: "registerSchema_parse (JObj kvs) = Inl iss"
    by (cases "registerSchema_parse (JObj kvs)") auto
  with registerSchema_parse_JObj[of kvs]
  have "iss \<noteq> []" and p: "\<forall>i\<in>set iss. fst i \<in> set register_fields" by simp_all
  then obtain i rest where c: "iss = i # rest" by (cases iss) auto
  have "\<forall>st. register env req st = (json_message 400 (snd i), st)"
    using rej c by (simp add: register_def b)
  with rej c p show ?thesis unfolding b by auto
qed


theorem register_rejects_mismatched_confirmation_witness:
  "get_prop (req_body (register_request ''carol'' ''carol@shop.test'' ''secret1'' ''secret2''))
      ''password'' = Some (JStr ''secret1'')
   \<and> get_prop (req_body (register_request ''carol'' ''carol@shop.test'' ''secret1'' ''secret2''))
      ''confirmPassword'' = Some (JStr ''secret2'')
   \<and> register sample_env (register_request ''carol'' ''carol@shop.test'' ''secret1'' ''secret2'')
        sample_store
       = (json_message 400 ''Passwords don't match'', sample_store)"
proof -
  let ?r = "register_request ''carol'' ''carol@shop.test'' ''secret1'' ''secret2''"
  have p: "get_prop (req_body ?r) ''password'' = Some (JStr ''secret1'')"
    and c: "get_prop (req_body ?r) ''confirmPassword'' = Some (JStr ''secret2'')"
    by (simp_all add: register_request_def request_of_def)
  have ne: "get_prop (req_body ?r) ''password'' \<noteq> get_prop (req_body ?r) ''confirmPassword''"
    using p c by simp
  have parse: "registerSchema_parse (req_body ?r)
                 = Inl [(''confirmPassword'', ''Passwords don't match'')]"
    by (simp add: register_request_def request_of_def registerSchema_parse_def z_string_min6_def)
  from register_rejects_mismatched_confirmation[OF ne, of sample_env] parse
  have "register sample_env ?r sample_store
          = (json_message 400 ''Passwords don't match'', sample_store)"
    by auto
  with p c show ?thesis by simp
qed

text \<open>
  C5, as the code has it. For a registration request that passes the register schema
  and whose e-mail belongs to a stored user, the answer is 400 "User already exists" and
  the store is unchanged, whether or not the username is taken as well: the username is
  not looked at.
\<close>

theorem register_reports_email_conflict_first:
  assumes "registerSchema_parse (req_body req) = Inr data"
    and "getUserByEmail st (r_email data) = Some existingUser"
  shows "register env req st = (json_message 400 ''User already exists'', st)
       \<and> get_prop (req_body req) ''email'' = Some (JStr (r_email data))
       \<and> get_prop (req_body req) ''username'' = Some (JStr (r_username data))"
  using assms registerSchema_parse_Inr[OF assms(1)] by (simp add: register_def)

theorem register_reports_email_conflict_first_witness:
  "registerSchema_parse (req_body (register_request ''root'' ''alice@shop.test'' ''secret1'' ''secret1''))
     = Inr \<lparr>r_username = ''root'', r_email = ''alice@shop.test'', r_password = ''secret1'',
            r_role = None, r_confirmPassword = ''secret1''\<rparr>
   \<and> getUserByEmail sample_store ''alice@shop.test'' = Some alice
   \<and> getUserByUsername sample_store ''root'' = Some root
   \<and> register sample_env (register_request ''root'' ''alice@shop.test'' ''secret1'' ''secret1'')
        sample_store
       = (json_message 400 ''User already exists'', sample_store)"
proof -
  let ?r = "register_request ''root'' ''alice@shop.test'' ''secret1'' ''secret1''"
  let ?d = "\<lparr>r_username = ''root'', r_email = ''alice@shop.test'', r_password = ''secret1'',
             r_role = None, r_confirmPassword = ''secret1''\<rparr>"
  have parse: "registerSchema_parse (req_body ?r) = Inr ?d"
    by (simp add: register_request_def request_of_def registerSchema_parse_def z_string_min6_def)
  have e: "getUserByEmail sample_store (r_email ?d) = Some alice"
    by (simp add: getUserByEmail_def sample_store_def alice_def root_def)
  have n: "getUserByUsername sample_store ''root'' = Some root"
    by (simp add: getUserByUsername_def sample_store_def alice_def root_def)
  from register_reports_email_conflict_first[OF parse e, of sample_env] parse e n
  show ?thesis by simp
qed

text \<open>
  C5 as it is stated fails on a request whose e-mail is taken and whose confirmation does
  not match: the schema answers first, with its own message.
\<close>

theorem register_taken_email_mismatched_confirmation:
  "get_prop (req_body (register_request ''dave'' ''alice@shop.test'' ''secret1'' ''secret2''))
      ''email'' = Some (JStr ''alice@shop.test'')
   \<and> getUserByEmail sample_store ''alice@shop.test'' = Some alice
   \<and> register sample_env (register_request ''dave'' ''alice@shop.test'' ''secret1'' ''secret2'')
        sample_store
       = (json_message 400 ''Passwords don't match'', sample_store)
   \<and> ''Passwords don't match'' \<noteq> ''User already exists''"
  by (simp add: register_request_def request_of_def register_def registerSchema_parse_def
      z_string_min6_def getUserByEmail_def sample_store_def alice_def root_def)

text \<open>
  A login that fails is answered from the request alone: whatever two stores hold, the
  two failure answers to one request are the same.
\<close>

lemma login_failure_independent_of_store:
  assumes "status (fst (login env req st1)) \<noteq> 200"
    and "status (fst (login env req st2)) \<noteq> 200"
  shows "fst (login env req st1) = fst (login env req st2)"
  using assms
  by (auto simp: login_def json_ok_def split: option.splits sum.splits if_splits)

text \<open>
  C4, as the code has it. Take two login requests that pass the login schema, one whose
  e-mail matches no stored user and one whose e-mail matches a user whose stored hash
  does not match the password. Both get 400 "Invalid credentials" and leave the store
  unchanged, so the two answers are equal in status and body.
\<close>

theorem login_failures_indistinguishable:
  assumes "loginSchema_parse (validEmail env) (req_body r1) = Inr d1"
    and "getUserByEmail st (l_email d1) = None"
    and "loginSchema_parse (validEmail env) (req_body r2) = Inr d2"
    and "getUserByEmail st (l_email d2) = Some u"
    and "\<not> bcrypt_compare env (l_password d2) (u_password u)"
  shows "login env r1 st = (json_message 400 ''Invalid credentials'', st)
       \<and> login env r2 st = (json_message 400 ''Invalid credentials'', st)
       \<and> get_prop (req_body r1) ''email'' = Some (JStr (l_email d1))
       \<and> get_prop (req_body r2) ''email'' = Some (JStr (l_email d2))
       \<and> get_prop (req_body r2) ''password'' = Some (JStr (l_password d2))"
  using assms loginSchema_parse_Inr[OF assms(1)] loginSchema_parse_Inr[OF assms(3)]
  by (simp add: login_def)

theorem login_failures_indistinguishable_witness:
  "loginSchema_parse (validEmail sample_env) (req_body (login_request ''ghost@shop.test'' ''whatever''))
     = Inr \<lparr>l_email = ''ghost@shop.test'', l_password = ''whatever''\<rparr>
   \<and> getUserByEmail sample_store ''ghost@shop.test'' = None
   \<and> loginSchema_parse (validEmail sample_env) (req_body (login_request ''alice@shop.test'' ''wrongpass''))
     = Inr \<lparr>l_email = ''alice@shop.test'', l_password = ''wrongpass''\<rparr>
   \<and> getUserByEmail sample_store ''alice@shop.test'' = Some alice
   \<and> \<not> bcrypt_compare sample_env ''wrongpass'' (u_password alice)
   \<and> login sample_env (login_request ''ghost@shop.test'' ''whatever'') sample_store
       = (json_message 400 ''Invalid credentials'', sample_store)
   \<and> login sample_env (login_request ''alice@shop.test'' ''wrongpass'') sample_store
       = (json_message 400 ''Invalid credentials'', sample_store)"
proof -
  let ?d1 = "\<lparr>l_email = ''ghost@shop.test'', l_password = ''whatever''\<rparr>"
  let ?d2 = "\<lparr>l_email = ''alice@shop.test'', l_password = ''wrongpass''\<rparr>"
  have p1: "loginSchema_parse (validEmail sample_env)
              (req_body (login_request ''ghost@shop.test'' ''whatever'')) = Inr ?d1"
    by (simp add: login_request_def request_of_def loginSchema_parse_def z_string_min6_def
        z_string_email_def sample_env_def)
  have p2: "loginSchema_parse (validEmail sample_env)
              (req_body (login_request ''alice@shop.test'' ''wrongpass'')) = Inr ?d2"
    by (simp add: login_request_def request_of_def loginSchema_parse_def z_string_min6_def
        z_string_email_def sample_env_def)
  have g1: "getUserByEmail sample_store (l_email ?d1) = None"
    by (simp add: getUserByEmail_def sample_store_def alice_def root_def)
  have g2: "getUserByEmail sample_store (l_email ?d2) = Some alice"
    by (simp add: getUserByEmail_def sample_store_def alice_def root_def)
  have w: "\<not> bcrypt_compare sample_env (l_password ?d2) (u_password alice)"
    by (simp add: sample_env_def alice_def)
  from login_failures_indistinguishable[OF p1 g1 p2 g2 w] p1 p2 g1 g2 w
  show ?thesis by simp
qed

text \<open>
  C4 as it is stated fails on a pair of requests of which one does not pass the schema:
  a password of three characters with an unknown e-mail gets the schema's message, a
  wrong password of nine characters with a known e-mail gets "Invalid credentials".
\<close>

theorem login_short_password_answers_differently:
  "getUserByEmail sample_store ''ghost@shop.test'' = None
   \<and> login sample_env (login_request ''ghost@shop.test'' ''abc'') sample_store
       = (json_message 400 ''String must contain at least 6 character(s)'', sample_store)
   \<and> getUserByEmail sample_store ''alice@shop.test'' = Some alice
   \<and> \<not> bcrypt_compare sample_env ''wrongpass'' (u_password alice)
   \<and> login sample_env (login_request ''alice@shop.test'' ''wrongpass'') sample_store
       = (json_message 400 ''Invalid credentials'', sample_store)
   \<and> body (fst (login sample_env (login_request ''ghost@shop.test'' ''abc'') sample_store))
       \<noteq> body (fst (login sample_env (login_request ''alice@shop.test'' ''wrongpass'') sample_store))"
  by (simp add: login_request_def request_of_def login_def loginSchema_parse_def
      z_string_min6_def z_string_email_def getUserByEmail_def sample_env_def sample_store_def
      alice_def root_def json_message_def)


section \<open>Product creation\<close>

lemma createProduct_defaults:
  "p_rating (fst (createProduct env st data)) = Some ''0.0''
   \<and> p_reviewCount (fst (createProduct env st data)) = Some 0
   \<and> p_isActive (fst (createProduct env st data)) = Some True
   \<and> snd (createProduct env st data)
       = st\<lparr>products := products st @ [fst (createProduct env st data)],
              inserted := Suc (inserted st)\<rparr>"
  by (simp add: createProduct_def Let_def)




section \<open>The cart\<close>

lemma foldl_plus_sum_list:
  fixes f :: "'a \<Rightarrow> 'b::comm_monoid_add"
  shows "foldl (\<lambda>sum item. sum + f item) a xs = a + sum_list (map f xs)"
  by (induction xs arbitrary: a) (simp_all add: add.assoc)

text \<open>In exact arithmetic the two folds are the sums.\<close>

lemma rat_ops_sums:
  "count_of rat_ops xs = sum_list (map ci_quantity xs)
   \<and> total_of rat_ops xs = (\<Sum>i\<leftarrow>xs. ci_price i * ci_quantity i)"
  by (simp add: count_of_def total_of_def rat_ops_def foldl_plus_sum_list)










section \<open>Product listing\<close>

lemma lower_char_plain:
  assumes "c \<noteq> CHR ''%''" "c \<noteq> CHR ''_''" "c \<noteq> CHR 0x5C"
  shows "lower_char c \<noteq> CHR ''%'' \<and> lower_char c \<noteq> CHR ''_'' \<and> lower_char c \<noteq> CHR 0x5C"
proof (cases "map_of (zip ''ABCDEFGHIJKLMNOPQRSTUVWXYZ'' ''abcdefghijklmnopqrstuvwxyz'') c")
  case None
  with assms show ?thesis by (simp add: lower_char_def)
next
  case (Some l)
  then have "l \<in> set ''abcdefghijklmnopqrstuvwxyz''"
    by (meson map_of_SomeD set_zip_rightD)
  then have "l \<noteq> CHR ''%'' \<and> l \<noteq> CHR ''_'' \<and> l \<noteq> CHR 0x5C" by auto
  with Some show ?thesis by (simp add: lower_char_def)
qed

lemma like_plain_lower: "like_plain s \<Longrightarrow> like_plain (map lower_char s)"
  using lower_char_plain by (induction s) (auto simp: like_plain_def)

lemma like_match_percent: "like_match ''%'' t"
  by (induction t) auto

lemma like_match_plain_prefix:
  "like_plain s \<Longrightarrow> like_match (s @ ''%'') t = starts_with t s"
proof (induction s arbitrary: t)
  case Nil
  then show ?case using like_match_percent by simp
next
  case (Cons c s)
  then have "c \<noteq> CHR ''%''" "c \<noteq> CHR ''_''" "c \<noteq> CHR 0x5C" "like_plain s"
    by (simp_all add: like_plain_def)
  with Cons.IH show ?case by (cases t) auto
qed

lemma like_match_plain_contains:
  "like_plain s \<Longrightarrow> like_match (''%'' @ s @ ''%'') t = contains_text t s"
proof (induction t)
  case Nil
  then show ?case using like_match_plain_prefix[of s "[]"] by (cases s) auto
next
  case (Cons x t)
  then show ?case using like_match_plain_prefix[of s "x # t"] by auto
qed

lemma ilike_plain_contains:
  assumes "like_plain s"
  shows "ilike t (''%'' @ s @ ''%'') = contains_ci t s"
proof -
  have "lower_char CHR ''%'' = CHR ''%''" by (simp add: lower_char_def)
  then have "map lower_char (''%'' @ s @ ''%'') = ''%'' @ map lower_char s @ ''%''" by simp
  then show ?thesis
    using like_match_plain_contains[OF like_plain_lower[OF assms]]
    by (simp add: ilike_def contains_ci_def)
qed

lemma pg_gte_at_least: "pg_gte price m = at_least price m"
  by (cases m) simp_all

lemma pg_lte_at_most: "m \<noteq> NaN \<Longrightarrow> pg_lte price m = at_most price m"
  by (cases m) simp_all

text \<open>
  Where the search text (if any) has no character that means something to \<open>LIKE\<close> and
  the upper price bound (if any) is not \<open>NaN\<close>, the listing is what the specification
  says: the active products that pass every provided filter.
\<close>

lemma getProducts_plain_search:
  assumes "case f_search filters of None \<Rightarrow> True | Some s \<Rightarrow> like_plain s"
    and "f_maxPrice filters \<noteq> Some NaN"
  shows "getProducts st filters = spec_listing st filters"
proof -
  have s: "ilike t (CHR ''%'' # s @ ''%'') = contains_ci t s" if "f_search filters = Some s" for s t
    using assms(1) that ilike_plain_contains[of s t] by simp
  have m: "pg_lte price m = at_most price m" if "f_maxPrice filters = Some m" for price m
    using assms(2) that pg_lte_at_most by auto
  show ?thesis
    unfolding getProducts_def spec_listing_def Let_def
    by (rule filter_cong[OF refl]) (auto simp: s m pg_gte_at_least split: option.splits)
qed

text \<open>
  C8, where the code departs from it. The search text goes into the \<open>ILIKE\<close> pattern
  as it is, so the text \<open>_\<close> stands for "any one character": the request
  \<open>GET /api/products?search=_\<close> lists the lamp and the desk, though neither name nor
  description contains an underscore, and the listing the specification describes is
  empty.
\<close>

theorem listing_search_underscore:
  "get_products sample_env (search_request ''_'') sample_store
     = (json_ok (ProductList [lamp, desk]), sample_store)
   \<and> spec_listing sample_store
       \<lparr>f_categoryId = None, f_search = Some ''_'', f_minPrice = None, f_maxPrice = None\<rparr> = []
   \<and> \<not> contains_ci (p_name lamp) ''_'' \<and> p_description lamp = None
   \<and> \<not> contains_ci (p_name desk) ''_'' \<and> \<not> contains_ci ''Solid wood'' ''_''"
  by (simp add: get_products_def search_request_def getProducts_def spec_listing_def
      sample_store_def lamp_def desk_def ilike_def contains_ci_def lower_char_def)

text \<open>The price bounds of the specification's example: only the lamp (150) lies in [100, 200].\<close>

lemma listing_price_range:
  "get_products sample_env (price_request ''100'' ''200'') sample_store
     = (json_ok (ProductList [lamp]), sample_store)"
  by (simp add: get_products_def price_request_def getProducts_def sample_env_def
      sample_store_def lamp_def desk_def)

text \<open>
  A bound that is no number: \<open>minPrice=abc\<close> lists nothing, \<open>maxPrice=abc\<close> bounds
  nothing.
\<close>

lemma listing_bound_not_a_number:
  "get_products sample_env (price_request ''abc'' []) sample_store
     = (json_ok (ProductList []), sample_store)
   \<and> get_products sample_env (price_request [] ''abc'') sample_store
     = (json_ok (ProductList [lamp, desk]), sample_store)"
  by (simp add: get_products_def price_request_def getProducts_def sample_env_def
      sample_store_def lamp_def desk_def)

end
